theory Spec2Isabelle
  imports Main "HOL-Library.Word"
begin

unbundle bit_operations_syntax

section \<open>Data model of func.cpp\<close>

text \<open>
  Objects that the C++ code reaches through pointers (\<^verbatim>\<open>Symbol *\<close>, \<^verbatim>\<open>llvm::Function *\<close>,
  \<^verbatim>\<open>llvm::BasicBlock *\<close>, \<^verbatim>\<open>Function *\<close>) are identified by an address; a nullable
  pointer is an \<open>addr option\<close> with \<open>None\<close> for \<^verbatim>\<open>NULL\<close>.  Objects live in explicit
  heaps (total maps from addresses), so that two pointers to one object alias in the
  model as they do in the program.
\<close>

type_synonym addr = nat
type_synonym SourcePos = nat

text \<open>
  \<^verbatim>\<open>Assert\<close> aborts the compiler, a dereference of \<^verbatim>\<open>NULL\<close> and a read through an
  argument iterator that has reached the end are undefined behaviour, and
  \<^verbatim>\<open>llvm::alignTo\<close> divides by its alignment: each is a branch of the model that
  returns \<open>Inl\<close>.
\<close>

datatype error =
    AssertFailed string
  | NullDeref
  | ArgIterPastEnd
  | DivisionByZero

definition bindE :: "error + 'a \<Rightarrow> ('a \<Rightarrow> error + 'b) \<Rightarrow> error + 'b" where
  "bindE m f = (case m of Inl e \<Rightarrow> Inl e | Inr x \<Rightarrow> f x)"

definition Assert :: "bool \<Rightarrow> string \<Rightarrow> error + unit" where
  "Assert b msg = (if b then Inr () else Inl (AssertFailed msg))"

subsection \<open>Types\<close>

text \<open>
  The type hierarchy is declared in type.h, outside the files examined.  The code uses
  \<^verbatim>\<open>CastType<FunctionType>\<close>, \<^verbatim>\<open>CastType<ReferenceType>\<close>, the qualifiers of a function
  type and its parameter names and types; \<^verbatim>\<open>IsISPCExternal()\<close> and \<^verbatim>\<open>IsISPCKernel()\<close>
  are methods of the function type whose bodies are not in func.cpp, so their results
  are carried as two more fields.
\<close>

datatype Type =
    AtomicType string
  | ReferenceType Type
  | TemplateTypeParmType string
  | FunctionTypeOf FunctionType
and FunctionType =
  FunctionType
    (params: "(string \<times> Type) list")
    (isTask: bool)
    (isUnmasked: bool)
    (isExported: bool)
    (isExternC: bool)
    (isExternSYCL: bool)
    (IsISPCExternal: bool)
    (IsISPCKernel: bool)

fun CastFunctionType :: "Type \<Rightarrow> FunctionType option" where
  "CastFunctionType (FunctionTypeOf ft) = Some ft"
| "CastFunctionType _ = None"

fun CastReferenceType :: "Type \<Rightarrow> Type option" where
  "CastReferenceType (ReferenceType t) = Some (ReferenceType t)"
| "CastReferenceType _ = None"

definition GetNumParameters :: "FunctionType \<Rightarrow> nat" where
  "GetNumParameters ft = length (params ft)"

subsection \<open>Values, storage and types of the target representation\<close>

text \<open>
  An \<^verbatim>\<open>llvm::Value *\<close> is a term that says how the value was produced: the \<open>i\<close>-th
  formal argument of the function under emission, the all-on mask constant, or the
  result of an instruction emitted through the context.
\<close>

datatype llvm_value =
    Argument nat
  | LLVMMaskAllOn
  | LoadInstOf AddressInfo
  | AllOf llvm_value
  | CallInstOf string
  | AddElementOffsetOf AddressInfo nat
  | XeUpdateAddrSpaceForParamOf llvm_value nat
and AddressInfo =
    AllocaInstOf nat
  | FullMaskAddressInfo
  | AddressInfo llvm_value

datatype llvm_type =
    IntegerTy nat
  | FloatingTy nat
  | PointerTy
  | VectorTy llvm_type nat
  | ArrayTy llvm_type nat
  | StructTy "llvm_type list"
  | VoidTy

text \<open>The queries of \<^verbatim>\<open>llvm::Type\<close> that the kernel metadata code makes.\<close>

fun getPrimitiveSizeInBits :: "llvm_type \<Rightarrow> nat" where
  "getPrimitiveSizeInBits (IntegerTy n) = n"
| "getPrimitiveSizeInBits (FloatingTy n) = n"
| "getPrimitiveSizeInBits (VectorTy t n) = n * getPrimitiveSizeInBits t"
| "getPrimitiveSizeInBits _ = 0"

fun getScalarType :: "llvm_type \<Rightarrow> llvm_type" where
  "getScalarType (VectorTy t n) = t"
| "getScalarType t = t"

definition getScalarSizeInBits :: "llvm_type \<Rightarrow> nat" where
  "getScalarSizeInBits t = getPrimitiveSizeInBits (getScalarType t)"

fun isVectorTy :: "llvm_type \<Rightarrow> bool" where
  "isVectorTy (VectorTy t n) = True"
| "isVectorTy _ = False"

fun isArrayTy :: "llvm_type \<Rightarrow> bool" where
  "isArrayTy (ArrayTy t n) = True"
| "isArrayTy _ = False"

definition isPtrOrPtrVectorTy :: "llvm_type \<Rightarrow> bool" where
  "isPtrOrPtrVectorTy t = (getScalarType t = PointerTy)"

subsection \<open>Symbols and statements\<close>

datatype ConstExpr = ConstExpr (constType: Type) (constValues: "int list")

record Symbol =
  name :: string
  pos :: SourcePos
  type :: Type
  storageClass :: nat
  constValue :: "ConstExpr option"
  varyingCFDepth :: int
  parentFunction :: "addr option"
  storageInfo :: "AddressInfo option"
  llvmFunction :: "addr option"
  exportedFunction :: "addr option"

type_synonym symbol_heap = "addr \<Rightarrow> Symbol"

text \<open>
  The statement AST is declared in stmt.h, outside the files examined.  func.cpp looks
  at a statement's position, at whether it is a \<^verbatim>\<open>StmtList\<close> and at that list's first
  entry; the emission context walks it for its labelled statements.  Every other kind
  of statement is an \<open>OtherStmt\<close> with a kind tag and its children.
\<close>

datatype Stmt =
    StmtList SourcePos "Stmt option list"
  | LabeledStmt SourcePos string "Stmt option"
  | OtherStmt SourcePos nat "Stmt option list"

fun stmt_pos :: "Stmt \<Rightarrow> SourcePos" where
  "stmt_pos (StmtList p _) = p"
| "stmt_pos (LabeledStmt p _ _) = p"
| "stmt_pos (OtherStmt p _ _) = p"

fun labelsOf :: "Stmt \<Rightarrow> string list" where
  "labelsOf (StmtList p ss) =
     concat (map (\<lambda>s. case s of None \<Rightarrow> [] | Some s' \<Rightarrow> labelsOf s') ss)"
| "labelsOf (LabeledStmt p n s) =
     n # (case s of None \<Rightarrow> [] | Some s' \<Rightarrow> labelsOf s')"
| "labelsOf (OtherStmt p k ss) =
     concat (map (\<lambda>s. case s of None \<Rightarrow> [] | Some s' \<Rightarrow> labelsOf s') ss)"

section \<open>Function: construction\<close>

record Function =
  sym :: "addr option"
  code :: "Stmt option"
  maskSymbol :: "addr option"
  args :: "addr option list"
  threadIndexSym :: "addr option"
  threadCountSym :: "addr option"
  taskIndexSym :: "addr option"
  taskCountSym :: "addr option"
  taskIndexSym0 :: "addr option"
  taskIndexSym1 :: "addr option"
  taskIndexSym2 :: "addr option"
  taskCountSym0 :: "addr option"
  taskCountSym1 :: "addr option"
  taskCountSym2 :: "addr option"

text \<open>
  Modelled from the spec: \<^verbatim>\<open>SymbolTable::LookupVariable\<close> (sym.cpp is not among the
  files), "symbol lookup by name within the active scope".  The table is the list of the
  variable symbols visible in the active scope, innermost first; a symbol is found
  under its own name.
\<close>

type_synonym SymbolTable = "addr list"

definition LookupVariable :: "symbol_heap \<Rightarrow> SymbolTable \<Rightarrow> string \<Rightarrow> addr option" where
  "LookupVariable h tab n = find (\<lambda>p. name (h p) = n) tab"

text \<open>
  The loop of the constructor over the declared parameters (func.cpp 170-180).
  \<^verbatim>\<open>strncmp(paramName, "__anon_parameter_", 17) == 0\<close> holds exactly when the first
  17 characters of the name are that prefix.
\<close>

fun bindParams ::
  "SymbolTable \<Rightarrow> addr \<Rightarrow> (string \<times> Type) list \<Rightarrow> addr option list \<Rightarrow> symbol_heap
    \<Rightarrow> error + (addr option list \<times> symbol_heap)" where
  "bindParams tab this [] as h = Inr (as, h)"
| "bindParams tab this ((paramName, t) # ps) as h =
     (let paramSym = LookupVariable h tab paramName in
      bindE (if paramSym = None
             then Assert (take 17 paramName = ''__anon_parameter_'')
                    ''strncmp(paramName, __anon_parameter_, 17) == 0''
             else Inr ())
        (\<lambda>_. let as' = as @ [paramSym];
                 h' = (case paramSym of
                         Some p \<Rightarrow>
                           if CastReferenceType t = None
                           then h(p := (h p)\<lparr>parentFunction := Some this\<rparr>)
                           else h
                       | None \<Rightarrow> h)
             in bindParams tab this ps as' h'))"

definition lookupAsserted :: "symbol_heap \<Rightarrow> SymbolTable \<Rightarrow> string \<Rightarrow> error + addr option" where
  "lookupAsserted h tab n =
     (case LookupVariable h tab n of
        None \<Rightarrow> Inl (AssertFailed n)
      | Some p \<Rightarrow> Inr (Some p))"

text \<open>
  \<^verbatim>\<open>TypeCheck\<close> and \<^verbatim>\<open>Optimize\<close> are the external passes applied to the body; each
  returns the new body or \<^verbatim>\<open>NULL\<close>.  The debug dumps print and change nothing.
\<close>

record Passes =
  TypeCheck :: "Stmt \<Rightarrow> Stmt option"
  Optimize :: "Stmt \<Rightarrow> Stmt option"

definition typeCheckAndOptimize :: "Passes \<Rightarrow> Function \<Rightarrow> Function" where
  "typeCheckAndOptimize P f =
     (case code f of
        None \<Rightarrow> f
      | Some c \<Rightarrow>
          (case TypeCheck P c of
             None \<Rightarrow> f\<lparr>code := None\<rparr>
           | Some c' \<Rightarrow> f\<lparr>code := Optimize P c'\<rparr>))"

text \<open>
  The binding of the thread and task symbols (func.cpp 182-209): ten asserted lookups
  for a task, ten \<^verbatim>\<open>NULL\<close>s otherwise.
\<close>

definition bindTaskSymbols ::
  "symbol_heap \<Rightarrow> SymbolTable \<Rightarrow> FunctionType \<Rightarrow> Function \<Rightarrow> error + Function" where
  "bindTaskSymbols h tab ft f0 =
     (if isTask ft then
        bindE (lookupAsserted h tab ''threadIndex'') (\<lambda>ti.
        bindE (lookupAsserted h tab ''threadCount'') (\<lambda>tc.
        bindE (lookupAsserted h tab ''taskIndex'') (\<lambda>xi.
        bindE (lookupAsserted h tab ''taskCount'') (\<lambda>xc.
        bindE (lookupAsserted h tab ''taskIndex0'') (\<lambda>xi0.
        bindE (lookupAsserted h tab ''taskIndex1'') (\<lambda>xi1.
        bindE (lookupAsserted h tab ''taskIndex2'') (\<lambda>xi2.
        bindE (lookupAsserted h tab ''taskCount0'') (\<lambda>xc0.
        bindE (lookupAsserted h tab ''taskCount1'') (\<lambda>xc1.
        bindE (lookupAsserted h tab ''taskCount2'') (\<lambda>xc2.
          Inr (f0\<lparr>threadIndexSym := ti, threadCountSym := tc,
                  taskIndexSym := xi, taskCountSym := xc,
                  taskIndexSym0 := xi0, taskIndexSym1 := xi1, taskIndexSym2 := xi2,
                  taskCountSym0 := xc0, taskCountSym1 := xc1, taskCountSym2 := xc2\<rparr>)
        ))))))))))
      else
        Inr (f0\<lparr>threadIndexSym := None, threadCountSym := None,
                taskIndexSym := None, taskCountSym := None,
                taskIndexSym0 := None, taskIndexSym1 := None, taskIndexSym2 := None,
                taskCountSym0 := None, taskCountSym1 := None, taskCountSym2 := None\<rparr>))"

text \<open>
  \<^verbatim>\<open>Function::Function(Symbol *s, Stmt *c)\<close> (func.cpp 163-212).  \<open>this\<close> is the
  address of the object under construction; the heap of symbols is returned with the
  parent-function back-references written by the loop.  The members that the
  constructor has not assigned yet are written as \<^verbatim>\<open>NULL\<close>.
\<close>

definition Function_ctor ::
  "Passes \<Rightarrow> SymbolTable \<Rightarrow> addr \<Rightarrow> addr option \<Rightarrow> Stmt option \<Rightarrow> symbol_heap
    \<Rightarrow> error + (Function \<times> symbol_heap)" where
  "Function_ctor P tab this s c h =
     (case LookupVariable h tab ''__mask'' of
        None \<Rightarrow> Inl (AssertFailed ''maskSymbol != NULL'')
      | Some m \<Rightarrow>
     (case s of
        None \<Rightarrow> Inl NullDeref
      | Some sp \<Rightarrow>
     (case CastFunctionType (type (h sp)) of
        None \<Rightarrow> Inl (AssertFailed ''type != NULL'')
      | Some ft \<Rightarrow>
     bindE (bindParams tab this (params ft) [] h) (\<lambda>(as, h').
     bindE (bindTaskSymbols h' tab ft
              \<lparr>sym = s, code = c, maskSymbol = Some m, args = as,
               threadIndexSym = None, threadCountSym = None,
               taskIndexSym = None, taskCountSym = None,
               taskIndexSym0 = None, taskIndexSym1 = None, taskIndexSym2 = None,
               taskCountSym0 = None, taskCountSym1 = None, taskCountSym2 = None\<rparr>)
       (\<lambda>f. Inr (typeCheckAndOptimize P f, h'))))))"

section \<open>The emission context and the module\<close>

text \<open>
  What the body of a function is emitted against: the block that is current, the
  function mask and the goto-label blocks at the moment \<^verbatim>\<open>code->EmitCode(ctx)\<close> is
  called.
\<close>

record body_entry =
  entryBlock :: "addr option"
  entryMask :: llvm_value
  entryLabels :: "(string \<times> addr) list"

text \<open>
  The lowering of the statements (\<^verbatim>\<open>Stmt::EmitCode\<close>) is not part of func.cpp.  What it
  may do to the state that func.cpp reads afterwards is its effect: it creates basic
  blocks, leaves some block current or none (the last one was terminated), may leave
  another function mask, and may report errors.
\<close>

record body_effect =
  newBlocks :: nat
  exitBlock :: "addr option"
  exitMask :: llvm_value
  reportedErrors :: nat

datatype event =
    EmitVariableDebugInfo addr
  | EmitFunctionParameterDebugInfo addr nat
  | SetArgName nat string
  | Alloca nat string
  | Store llvm_value AddressInfo
  | Load AddressInfo
  | Call string
  | SetFunctionFTZ_DAZFlags
  | SetDebugPos SourcePos
  | AddInstrumentationPoint string
  | CondBranch addr addr llvm_value
  | Return
  | EmitBody body_entry

record FunctionEmitContext =
  functionMaskValue :: llvm_value
  bblock :: "addr option"
  labelMap :: "(string \<times> addr) list"
  nextBlock :: addr
  nextAlloca :: nat
  emitted :: "event list"

record llvm_Function =
  fn_name :: string
  fn_argTypes :: "llvm_type list"
  fn_attrs :: "(string \<times> string) list"
  fn_noAlias :: "nat list"
  fn_doesNotThrow :: bool
  fn_callingConv :: nat
  fn_dllExport :: bool
  fn_body :: "event list"

record KernelMD =
  md_FunctionRef :: addr
  md_Name :: string
  md_ArgKinds :: "nat list"
  md_SLMSize :: nat
  md_ArgOffsets :: nat
  md_ArgIOKinds :: "nat list"
  md_ArgTypeDescs :: "string list"
  md_NBarrierCnt :: nat
  md_BarrierCnt :: nat

text \<open>
  The module \<^verbatim>\<open>m\<close>: the error counter and the diagnostics, the heap of symbols, the
  heap of \<^verbatim>\<open>llvm::Function\<close> objects with the list of those that are in
  \<^verbatim>\<open>m->module\<close>, and the named metadata node \<^verbatim>\<open>genx.kernels\<close>.
\<close>

record Module =
  errorCount :: nat
  diagnostics :: "string list"
  symbols :: symbol_heap
  functionHeap :: "addr \<Rightarrow> llvm_Function"
  moduleFunctions :: "addr list"
  nextFunction :: addr
  genxKernels :: "KernelMD list"

text \<open>
  The global \<^verbatim>\<open>g\<close>: the option flags, what func.cpp asks of the target, and the
  constants and compile-time switches whose definitions are in other files
  (\<^verbatim>\<open>CHECK_MASK_AT_FUNCTION_START_COST\<close>, \<^verbatim>\<open>LLVMTypes::MaskType\<close>,
  \<^verbatim>\<open>ISPC_XE_ENABLED\<close>).  \<^verbatim>\<open>markFuncWithTargetAttr\<close> adds \<open>targetFnAttrs\<close>.
\<close>

record Globals =
  NoOmitFramePointer :: bool
  archIsWasm32 :: bool
  isXeTarget :: bool
  getMaskingIsFree :: bool
  emitXeHardwareMask :: bool
  getXeGrfSize :: "32 word"
  targetFnAttrs :: "(string \<times> string) list"
  disableCoherentControlFlow :: bool
  disableMaskAllOnOptimizations :: bool
  mangleFunctionsWithTarget :: bool
  targetOSIsWindows :: bool
  dllExport :: bool
  ISPC_XE_ENABLED :: bool
  CHECK_MASK_AT_FUNCTION_START_COST :: int
  LLVMMaskType :: llvm_type

text \<open>The functions of the AST and of the type system that func.cpp calls.\<close>

record Collaborators =
  EstimateCost :: "Stmt \<Rightarrow> int"
  StmtEmitCode :: "Stmt \<Rightarrow> body_entry \<Rightarrow> body_effect"
  LLVMType :: "Type \<Rightarrow> llvm_type"
  LLVMFunctionType :: "FunctionType \<Rightarrow> bool \<Rightarrow> llvm_type list"
  GetFunctionMangledName :: "FunctionType \<Rightarrow> bool \<Rightarrow> string \<times> string"
  GetCallingConv :: "FunctionType \<Rightarrow> nat"

type_synonym emit_state = "FunctionEmitContext \<times> Module"

subsection \<open>Primitives of the emission context\<close>

text \<open>
  Modelled from the spec: the primitives of \<^verbatim>\<open>FunctionEmitContext\<close> (ctx.cpp is not
  among the files), "primitives to allocate stack storage, load/store typed values,
  branch, call, query/set the current mask, create/switch basic blocks, and emit debug
  metadata".  Each instruction is appended to the emitted code; a branch and a return
  terminate the current block, after which no block is current.
\<close>

definition emit :: "event \<Rightarrow> FunctionEmitContext \<Rightarrow> FunctionEmitContext" where
  "emit e c = c\<lparr>emitted := emitted c @ [e]\<rparr>"

definition GetFunctionMask :: "FunctionEmitContext \<Rightarrow> llvm_value" where
  "GetFunctionMask c = functionMaskValue c"

definition SetFunctionMask :: "llvm_value \<Rightarrow> FunctionEmitContext \<Rightarrow> FunctionEmitContext" where
  "SetFunctionMask v c = c\<lparr>functionMaskValue := v\<rparr>"

definition GetCurrentBasicBlock :: "FunctionEmitContext \<Rightarrow> addr option" where
  "GetCurrentBasicBlock c = bblock c"

definition SetCurrentBasicBlock :: "addr \<Rightarrow> FunctionEmitContext \<Rightarrow> FunctionEmitContext" where
  "SetCurrentBasicBlock bb c = c\<lparr>bblock := Some bb\<rparr>"

definition CreateBasicBlock :: "string \<Rightarrow> FunctionEmitContext \<Rightarrow> addr \<times> FunctionEmitContext" where
  "CreateBasicBlock nm c = (nextBlock c, c\<lparr>nextBlock := Suc (nextBlock c)\<rparr>)"

definition AllocaInst :: "string \<Rightarrow> FunctionEmitContext \<Rightarrow> AddressInfo \<times> FunctionEmitContext" where
  "AllocaInst nm c =
     (AllocaInstOf (nextAlloca c),
      emit (Alloca (nextAlloca c) nm) (c\<lparr>nextAlloca := Suc (nextAlloca c)\<rparr>))"

definition StoreInst :: "llvm_value \<Rightarrow> AddressInfo \<Rightarrow> FunctionEmitContext \<Rightarrow> FunctionEmitContext" where
  "StoreInst v a c = emit (Store v a) c"

definition LoadInst :: "AddressInfo \<Rightarrow> FunctionEmitContext \<Rightarrow> llvm_value \<times> FunctionEmitContext" where
  "LoadInst a c = (LoadInstOf a, emit (Load a) c)"

definition BranchInst :: "addr \<Rightarrow> addr \<Rightarrow> llvm_value \<Rightarrow> FunctionEmitContext \<Rightarrow> FunctionEmitContext" where
  "BranchInst bt bf test c = (emit (CondBranch bt bf test) c)\<lparr>bblock := None\<rparr>"

definition ReturnInst :: "FunctionEmitContext \<Rightarrow> FunctionEmitContext" where
  "ReturnInst c = (emit Return c)\<lparr>bblock := None\<rparr>"

text \<open>
  Modelled from the spec: \<^verbatim>\<open>FunctionEmitContext::InitializeLabelMap\<close>, "initialize
  goto-label basic blocks": the label map is emptied and every label of the body gets
  a newly created basic block.
\<close>

definition initLabelBBlocks :: "string \<Rightarrow> FunctionEmitContext \<Rightarrow> FunctionEmitContext" where
  "initLabelBBlocks n c =
     (if n \<in> set (map fst (labelMap c)) then c
      else (let (bb, c') = CreateBasicBlock n c
            in c'\<lparr>labelMap := labelMap c' @ [(n, bb)]\<rparr>))"

definition InitializeLabelMap :: "Stmt \<Rightarrow> FunctionEmitContext \<Rightarrow> FunctionEmitContext" where
  "InitializeLabelMap body c = fold initLabelBBlocks (labelsOf body) (c\<lparr>labelMap := []\<rparr>)"

text \<open>
  \<^verbatim>\<open>code->EmitCode(ctx)\<close>: the body is lowered against the context as it stands, which
  the emitted code records, and the effect of the lowering is applied.
\<close>

definition EmitCode :: "Collaborators \<Rightarrow> Stmt \<Rightarrow> emit_state \<Rightarrow> emit_state" where
  "EmitCode L body s =
     (let (c, m) = s;
          entry = \<lparr>entryBlock = bblock c, entryMask = functionMaskValue c,
                   entryLabels = labelMap c\<rparr>;
          eff = StmtEmitCode L body entry
      in ((emit (EmitBody entry) c)
            \<lparr>bblock := exitBlock eff, functionMaskValue := exitMask eff,
             nextBlock := nextBlock c + newBlocks eff\<rparr>,
          m\<lparr>errorCount := errorCount m + reportedErrors eff\<rparr>))"

section \<open>Function::emitCode: parameter marshalling\<close>

fun foldE :: "('a \<Rightarrow> 's \<Rightarrow> error + 's) \<Rightarrow> 'a list \<Rightarrow> 's \<Rightarrow> error + 's" where
  "foldE f [] s = Inr s"
| "foldE f (x # xs) s = bindE (f x s) (foldE f xs)"

definition derefSym :: "addr option \<Rightarrow> error + addr" where
  "derefSym p = (case p of None \<Rightarrow> Inl NullDeref | Some a \<Rightarrow> Inr a)"

definition setStorageInfo :: "addr \<Rightarrow> AddressInfo \<Rightarrow> Module \<Rightarrow> Module" where
  "setStorageInfo p a m =
     m\<lparr>symbols := (symbols m)(p := (symbols m p)\<lparr>storageInfo := Some a\<rparr>)\<rparr>"

text \<open>
  The argument iterator of the function under emission is a position in the list of
  its formal arguments.  \<^verbatim>\<open>&*(argIter++)\<close> reads the argument at the position and
  advances; at the end of the list there is nothing to read.
\<close>

definition derefArg :: "llvm_Function \<Rightarrow> nat \<Rightarrow> error + llvm_value" where
  "derefArg F argIter =
     (if argIter < length (fn_argTypes F) then Inr (Argument argIter) else Inl ArgIterPastEnd)"

definition nextArg :: "llvm_Function \<Rightarrow> nat \<Rightarrow> error + (llvm_value \<times> nat)" where
  "nextArg F argIter = bindE (derefArg F argIter) (\<lambda>v. Inr (v, Suc argIter))"

text \<open>
  \<^verbatim>\<open>lCopyInTaskParameter\<close> (func.cpp 247-277).  The pointer in \<open>structArgPtrInfo\<close> is
  the first formal argument, so its type is the type of that argument; the element
  type is the struct type that the caller has just built.
\<close>

definition lCopyInTaskParameter ::
  "nat \<Rightarrow> llvm_Function \<Rightarrow> AddressInfo \<Rightarrow> addr option list \<Rightarrow> emit_state \<Rightarrow> error + emit_state" where
  "lCopyInTaskParameter i F structArgPtrInfo as s =
     bindE (Assert (fn_argTypes F ! 0 = PointerTy) ''llvm::isa<llvm::PointerType>(structArgType)'')
       (\<lambda>_. case as ! i of
               None \<Rightarrow> Inr s
             | Some p \<Rightarrow>
                 (let (c, m) = s;
                      (slot, c) = AllocaInst (name (symbols m p)) c;
                      m = setStorageInfo p slot m;
                      ptr = AddElementOffsetOf structArgPtrInfo i;
                      (ptrval, c) = LoadInst (AddressInfo ptr) c;
                      c = StoreInst ptrval slot c;
                      c = emit (EmitFunctionParameterDebugInfo p i) c
                  in Inr (c, m)))"

text \<open>
  The two statements repeated at func.cpp 351-377:
  \<^verbatim>\<open>s->storageInfo = ctx->AllocaInst(Int32Type, nm); ctx->StoreInst(v, s->storageInfo);\<close>
\<close>

definition copyToLocal :: "addr option \<Rightarrow> string \<Rightarrow> llvm_value \<Rightarrow> emit_state \<Rightarrow> error + emit_state" where
  "copyToLocal sptr nm v s =
     bindE (derefSym sptr)
       (\<lambda>p. let (c, m) = s;
                (slot, c) = AllocaInst nm c;
                m = setStorageInfo p slot m;
                c = StoreInst v slot c
            in Inr (c, m))"

text \<open>
  The mask of a CPU task (func.cpp 340-347): it is the last member of the argument
  structure.
\<close>

definition loadTaskMask :: "Function \<Rightarrow> FunctionType \<Rightarrow> AddressInfo \<Rightarrow> emit_state \<Rightarrow> emit_state" where
  "loadTaskMask f ft stInfo s =
     (if isUnmasked ft = False
      then (let (c, m) = s;
                nArgs = length (args f);
                ptr = AddElementOffsetOf stInfo nArgs;
                (ptrval, c) = LoadInst (AddressInfo ptr) c;
                c = SetFunctionMask ptrval c
            in (c, m))
      else s)"

text \<open>
  The CPU task branch (func.cpp 313-377).  The result carries the final position of
  the argument iterator.
\<close>

definition marshalTaskCPU ::
  "Function \<Rightarrow> FunctionType \<Rightarrow> llvm_Function \<Rightarrow> emit_state \<Rightarrow> error + (nat \<times> emit_state)" where
  "marshalTaskCPU f ft F s =
     bindE (Assert (IsISPCExternal ft = False) ''type->IsISPCExternal() == false'') (\<lambda>_.
     bindE (nextArg F 0) (\<lambda>(structParamPtr, argIter).
     bindE (nextArg F argIter) (\<lambda>(threadIndex, argIter).
     bindE (nextArg F argIter) (\<lambda>(threadCount, argIter).
     bindE (nextArg F argIter) (\<lambda>(taskIndex, argIter).
     bindE (nextArg F argIter) (\<lambda>(taskCount, argIter).
     bindE (nextArg F argIter) (\<lambda>(taskIndex0, argIter).
     bindE (nextArg F argIter) (\<lambda>(taskIndex1, argIter).
     bindE (nextArg F argIter) (\<lambda>(taskIndex2, argIter).
     bindE (nextArg F argIter) (\<lambda>(taskCount0, argIter).
     bindE (nextArg F argIter) (\<lambda>(taskCount1, argIter).
     bindE (nextArg F argIter) (\<lambda>(taskCount2, argIter).
     let stInfo = AddressInfo structParamPtr in
     bindE (foldE (\<lambda>i. lCopyInTaskParameter i F stInfo (args f)) [0..<length (args f)] s) (\<lambda>s.
     bindE (copyToLocal (threadIndexSym f) ''threadIndex'' threadIndex
              (loadTaskMask f ft stInfo s)) (\<lambda>s.
     bindE (copyToLocal (threadCountSym f) ''threadCount'' threadCount s) (\<lambda>s.
     bindE (copyToLocal (taskIndexSym f) ''taskIndex'' taskIndex s) (\<lambda>s.
     bindE (copyToLocal (taskCountSym f) ''taskCount'' taskCount s) (\<lambda>s.
     bindE (copyToLocal (taskIndexSym0 f) ''taskIndex0'' taskIndex0 s) (\<lambda>s.
     bindE (copyToLocal (taskIndexSym1 f) ''taskIndex1'' taskIndex1 s) (\<lambda>s.
     bindE (copyToLocal (taskIndexSym2 f) ''taskIndex2'' taskIndex2 s) (\<lambda>s.
     bindE (copyToLocal (taskCountSym0 f) ''taskCount0'' taskCount0 s) (\<lambda>s.
     bindE (copyToLocal (taskCountSym1 f) ''taskCount1'' taskCount1 s) (\<lambda>s.
     bindE (copyToLocal (taskCountSym2 f) ''taskCount2'' taskCount2 s) (\<lambda>s.
       Inr (argIter, s))))))))))))))))))))))))"

text \<open>
  One iteration of the loop of the other branch (func.cpp 383-409); the iterator and
  the index advance together, so the argument read is the one at position \<open>i\<close>.
\<close>

definition marshalParam ::
  "Globals \<Rightarrow> llvm_Function \<Rightarrow> addr option list \<Rightarrow> nat \<Rightarrow> emit_state \<Rightarrow> error + emit_state" where
  "marshalParam g F as i s =
     (case as ! i of
        None \<Rightarrow> Inr s
      | Some p \<Rightarrow>
          bindE (derefArg F i) (\<lambda>arg.
            let (c, m) = s;
                c = emit (SetArgName i (name (symbols m p))) c;
                (slot, c) = AllocaInst (name (symbols m p)) c;
                m = setStorageInfo p slot m;
                addrCasted = (if ISPC_XE_ENABLED g \<and> isXeTarget g
                              then XeUpdateAddrSpaceForParamOf arg i else arg);
                c = StoreInst addrCasted slot c;
                c = emit (EmitFunctionParameterDebugInfo p i) c
            in Inr (c, m)))"

text \<open>The mask parameter, or its absence (func.cpp 416-440).\<close>

definition marshalMask ::
  "Globals \<Rightarrow> FunctionType \<Rightarrow> llvm_Function \<Rightarrow> nat \<Rightarrow> emit_state \<Rightarrow> error + (nat \<times> emit_state)" where
  "marshalMask g ft F argIter s =
     (let (c, m) = s in
      if argIter = length (fn_argTypes F) then
        bindE (Assert (isUnmasked ft \<or> isExported ft \<or> isExternC ft \<or> isExternSYCL ft \<or>
                       IsISPCExternal ft \<or> IsISPCKernel ft)
                 ''type->isUnmasked || type->isExported || ...'') (\<lambda>_.
          Inr (argIter, (SetFunctionMask LLVMMaskAllOn c, m)))
      else
        bindE (Assert (isUnmasked ft = False) ''type->isUnmasked == false'') (\<lambda>_.
        bindE (derefArg F argIter) (\<lambda>maskArg.
        let c = emit (SetArgName argIter ''__mask'') c in
        bindE (Assert (fn_argTypes F ! argIter = LLVMMaskType g)
                 ''argIter->getType() == LLVMTypes::MaskType'') (\<lambda>_.
        let c = (if emitXeHardwareMask g
                 then SetFunctionMask LLVMMaskAllOn c
                 else SetFunctionMask maskArg c);
            argIter = Suc argIter in
        bindE (Assert (argIter = length (fn_argTypes F)) ''argIter == function->arg_end()'') (\<lambda>_.
          Inr (argIter, (c, m)))))))"

text \<open>
  \<^verbatim>\<open>lXeGetTaskVariableValue\<close> (func.cpp 279-284) and the two statements repeated at
  func.cpp 444-469.
\<close>

definition getFunction :: "Module \<Rightarrow> string \<Rightarrow> addr option" where
  "getFunction m nm = find (\<lambda>a. fn_name (functionHeap m a) = nm) (moduleFunctions m)"

definition lXeGetTaskVariableValue :: "string \<Rightarrow> emit_state \<Rightarrow> error + (llvm_value \<times> emit_state)" where
  "lXeGetTaskVariableValue taskFunc s =
     (let (c, m) = s in
      case getFunction m taskFunc of
        None \<Rightarrow> Inl (AssertFailed ''task_func != NULL'')
      | Some task_func \<Rightarrow> Inr (CallInstOf taskFunc, (emit (Call taskFunc) c, m)))"

definition xeTaskVariable :: "addr option \<Rightarrow> string \<Rightarrow> string \<Rightarrow> emit_state \<Rightarrow> error + emit_state" where
  "xeTaskVariable sptr nm taskFunc s =
     bindE (derefSym sptr) (\<lambda>p.
       let (c, m) = s;
           (slot, c) = AllocaInst nm c;
           m = setStorageInfo p slot m
       in bindE (lXeGetTaskVariableValue taskFunc (c, m)) (\<lambda>(v, (c, m)).
            Inr (StoreInst v slot c, m)))"

text \<open>The branch for a regular function or an accelerator task (func.cpp 379-470).\<close>

definition marshalRegular ::
  "Globals \<Rightarrow> Collaborators \<Rightarrow> Function \<Rightarrow> FunctionType \<Rightarrow> llvm_Function \<Rightarrow> emit_state
     \<Rightarrow> error + (nat \<times> emit_state)" where
  "marshalRegular g L f ft F s =
     bindE (Assert (length (LLVMFunctionType L ft False) \<ge> length (args f))
              ''fType->getFunctionNumParams() >= args.size()'') (\<lambda>_.
     bindE (foldE (marshalParam g F (args f)) [0..<length (args f)] s) (\<lambda>s.
     bindE (marshalMask g ft F (length (args f)) s) (\<lambda>(argIter, s).
     if isXeTarget g \<and> isTask ft then
       bindE (xeTaskVariable (threadIndexSym f) ''threadIndex'' ''__task_index'' s) (\<lambda>s.
       bindE (xeTaskVariable (threadCountSym f) ''threadCount'' ''__task_count'' s) (\<lambda>s.
       bindE (xeTaskVariable (taskIndexSym f) ''taskIndex'' ''__task_index'' s) (\<lambda>s.
       bindE (xeTaskVariable (taskCountSym f) ''taskCount'' ''__task_count'' s) (\<lambda>s.
       bindE (xeTaskVariable (taskIndexSym0 f) ''taskIndex0'' ''__task_index0'' s) (\<lambda>s.
       bindE (xeTaskVariable (taskIndexSym1 f) ''taskIndex1'' ''__task_index1'' s) (\<lambda>s.
       bindE (xeTaskVariable (taskIndexSym2 f) ''taskIndex2'' ''__task_index2'' s) (\<lambda>s.
       bindE (xeTaskVariable (taskCountSym0 f) ''taskCount0'' ''__task_count0'' s) (\<lambda>s.
       bindE (xeTaskVariable (taskCountSym1 f) ''taskCount1'' ''__task_count1'' s) (\<lambda>s.
       bindE (xeTaskVariable (taskCountSym2 f) ''taskCount2'' ''__task_count2'' s) (\<lambda>s.
         Inr (argIter, s)))))))))))
     else Inr (argIter, s))))"

section \<open>Function::emitCode: the body and the mask check\<close>

definition hasFnAttr :: "llvm_Function \<Rightarrow> string \<Rightarrow> bool" where
  "hasFnAttr F a = (a \<in> set (map fst (fn_attrs F)))"

text \<open>
  The decision of func.cpp 488-498, one assignment of the source per binding.  \<open>F\<close> is
  the function under emission and \<open>costEstimate\<close> the result of \<^verbatim>\<open>EstimateCost(code)\<close>.
\<close>

definition checkMask :: "Globals \<Rightarrow> FunctionType \<Rightarrow> llvm_Function \<Rightarrow> int \<Rightarrow> bool" where
  "checkMask g ft F costEstimate =
     (let checkMask0 =
            ((\<not> isXeTarget g \<and> isTask ft = True) \<or>
             ((hasFnAttr F ''alwaysinline'' = False) \<and>
              costEstimate > CHECK_MASK_AT_FUNCTION_START_COST g));
          checkMask1 = (checkMask0 \<and> (isUnmasked ft = False));
          checkMask2 = (checkMask1 \<and> (getMaskingIsFree g = False));
          checkMask3 = (checkMask2 \<and> (disableCoherentControlFlow g = False))
      in checkMask3)"

text \<open>The branch of func.cpp 500-536: the body is emitted twice.\<close>

definition emitBodyChecked :: "Globals \<Rightarrow> Collaborators \<Rightarrow> Stmt \<Rightarrow> emit_state \<Rightarrow> emit_state" where
  "emitBodyChecked g L body s =
     (let (c, m) = s;
          mask = GetFunctionMask c;
          allOn = AllOf mask;
          (bbAllOn, c) = CreateBasicBlock ''all_on'' c;
          (bbSomeOn, c) = CreateBasicBlock ''some_on'' c;
          c = InitializeLabelMap body c;
          c = BranchInst bbAllOn bbSomeOn allOn c;
          c = SetCurrentBasicBlock bbAllOn c;
          c = (if \<not> disableMaskAllOnOptimizations g then SetFunctionMask LLVMMaskAllOn c else c);
          (c, m) = EmitCode L body (c, m);
          c = (if GetCurrentBasicBlock c \<noteq> None then ReturnInst c else c);
          c = SetCurrentBasicBlock bbSomeOn c;
          c = SetFunctionMask mask c;
          c = InitializeLabelMap body c;
          (c, m) = EmitCode L body (c, m);
          c = (if GetCurrentBasicBlock c \<noteq> None then ReturnInst c else c)
      in (c, m))"

text \<open>The branch of func.cpp 537-542: no check, the body is emitted once.\<close>

definition emitBodyUnchecked :: "Collaborators \<Rightarrow> Stmt \<Rightarrow> emit_state \<Rightarrow> emit_state" where
  "emitBodyUnchecked L body s =
     (let (c, m) = s;
          c = InitializeLabelMap body c
      in EmitCode L body (c, m))"

text \<open>
  func.cpp 477-543, for a body that is not \<^verbatim>\<open>NULL\<close>.  \<open>fn\<close> is the address of the
  \<^verbatim>\<open>llvm::Function\<close> under emission.
\<close>

definition emitBody ::
  "Globals \<Rightarrow> Collaborators \<Rightarrow> FunctionType \<Rightarrow> addr \<Rightarrow> Stmt \<Rightarrow> emit_state \<Rightarrow> emit_state" where
  "emitBody g L ft fn body s =
     (let (c, m) = s;
          c = emit (SetDebugPos (stmt_pos body)) c;
          c = emit (AddInstrumentationPoint ''function entry'') c;
          costEstimate = EstimateCost L body
      in if checkMask g ft (functionHeap m fn) costEstimate
         then emitBodyChecked g L body (c, m)
         else emitBodyUnchecked L body (c, m))"

text \<open>The copies of the body in a piece of emitted code, in order.\<close>

fun bodyCopies :: "event list \<Rightarrow> body_entry list" where
  "bodyCopies [] = []"
| "bodyCopies (EmitBody b # es) = b # bodyCopies es"
| "bodyCopies (e # es) = bodyCopies es"

text \<open>
  The decision as the specification words it: (a CPU task, or not always-inline and
  cost above the threshold), and not unmasked, and masking not free, and the
  coherent-control-flow optimisation not disabled.
\<close>

definition checkMask_spec :: "Globals \<Rightarrow> FunctionType \<Rightarrow> llvm_Function \<Rightarrow> int \<Rightarrow> bool" where
  "checkMask_spec g ft F costEstimate =
     (((isTask ft \<and> \<not> isXeTarget g) \<or>
       (\<not> hasFnAttr F ''alwaysinline'' \<and> CHECK_MASK_AT_FUNCTION_START_COST g < costEstimate))
      \<and> \<not> isUnmasked ft
      \<and> \<not> getMaskingIsFree g
      \<and> \<not> disableCoherentControlFlow g)"

section \<open>Function::emitCode: kernel metadata\<close>

text \<open>
  \<^verbatim>\<open>llvm::alignTo(Value, Align)\<close> computes \<^verbatim>\<open>(Value + Align - 1) / Align * Align\<close> on
  64-bit unsigned integers; func.cpp assigns the result to an \<^verbatim>\<open>unsigned int\<close>.
\<close>

definition alignTo :: "32 word \<Rightarrow> 32 word \<Rightarrow> error + 32 word" where
  "alignTo v a =
     (if a = 0 then Inl DivisionByZero
      else Inr (ucast ((((ucast v :: 64 word) + ucast a - 1) div ucast a) * ucast a)))"

text \<open>
  The offset arithmetic of one argument (func.cpp 604-618), for the target type \<open>ty\<close>
  of the argument and the running \<open>offset\<close>: the offset at which the argument lies, and
  the offset after it.
\<close>

definition kernelArgOffset :: "32 word \<Rightarrow> llvm_type \<Rightarrow> 32 word \<Rightarrow> error + (32 word \<times> 32 word)" where
  "kernelArgOffset grf_size ty offset =
     (let bytes = (word_of_nat (getScalarSizeInBits ty) :: 32 word) div 8 in
      bindE (if bytes \<noteq> 0 then alignTo offset bytes else Inr offset) (\<lambda>offset.
      if isVectorTy ty then
        (let bytes = (ucast ((word_of_nat (getPrimitiveSizeInBits ty) :: 64 word) div 8) :: 32 word) in
         bindE (if (offset AND (grf_size - 1)) + bytes > grf_size
                then alignTo offset grf_size
                else Inr offset) (\<lambda>offset.
           Inr (offset, offset + bytes)))
      else Inr (offset, offset + bytes)))"

text \<open>
  The local variables of the loop of func.cpp 593-619.  \<open>argOffsets\<close> keeps, for every
  argument, the value of \<^verbatim>\<open>offset\<close> just before its size is added.
\<close>

record kernel_args =
  argKinds :: "nat list"
  argInOutKinds :: "nat list"
  argTypeDescs :: "string list"
  argOffsets :: "32 word list"
  offset :: "32 word"

definition AK_NORMAL :: nat where "AK_NORMAL = 0"
definition IK_NORMAL :: nat where "IK_NORMAL = 0"

definition getArgType :: "llvm_Function \<Rightarrow> nat \<Rightarrow> error + llvm_type" where
  "getArgType F i =
     (if i < length (fn_argTypes F) then Inr (fn_argTypes F ! i) else Inl ArgIterPastEnd)"

definition kernelArg ::
  "Globals \<Rightarrow> Collaborators \<Rightarrow> Function \<Rightarrow> llvm_Function \<Rightarrow> Module \<Rightarrow> nat \<Rightarrow> kernel_args
     \<Rightarrow> error + kernel_args" where
  "kernelArg g L f F m i acc =
     bindE (derefSym (args f ! i)) (\<lambda>p.
     let T = type (symbols m p);
         acc = acc\<lparr>argKinds := argKinds acc @ [AK_NORMAL]\<rparr>;
         acc = acc\<lparr>argInOutKinds := argInOutKinds acc @ [IK_NORMAL]\<rparr> in
     bindE (getArgType F i) (\<lambda>argType.
     let acc = acc\<lparr>argTypeDescs := argTypeDescs acc @
                 [if isPtrOrPtrVectorTy argType \<or> isArrayTy argType
                  then ''svmptr_t read_write'' else '''']\<rparr> in
     bindE (kernelArgOffset (getXeGrfSize g) (LLVMType L T) (offset acc)) (\<lambda>(at, off).
       Inr (acc\<lparr>argOffsets := argOffsets acc @ [at], offset := off\<rparr>))))"

definition kernelArgs ::
  "Globals \<Rightarrow> Collaborators \<Rightarrow> Function \<Rightarrow> llvm_Function \<Rightarrow> Module \<Rightarrow> error + kernel_args" where
  "kernelArgs g L f F m =
     foldE (kernelArg g L f F m) [0..<length (args f)]
       \<lparr>argKinds = [], argInOutKinds = [], argTypeDescs = [], argOffsets = [], offset = 32\<rparr>"

definition addFnAttr :: "addr \<Rightarrow> string \<Rightarrow> string \<Rightarrow> Module \<Rightarrow> Module" where
  "addFnAttr fn k v m =
     m\<lparr>functionHeap := (functionHeap m)
          (fn := (functionHeap m fn)\<lparr>fn_attrs := fn_attrs (functionHeap m fn) @ [(k, v)]\<rparr>)\<rparr>"

text \<open>
  func.cpp 572-640.  The node registered under \<^verbatim>\<open>genx.kernels\<close> has a null constant
  in the \<^verbatim>\<open>ArgOffsets\<close> field.
\<close>

definition emitKernelMetadata ::
  "Globals \<Rightarrow> Collaborators \<Rightarrow> Function \<Rightarrow> addr \<Rightarrow> addr \<Rightarrow> emit_state \<Rightarrow> error + emit_state" where
  "emitKernelMetadata g L f sp fn s =
     (let (c, m) = s in
      bindE (kernelArgs g L f (functionHeap m fn) m) (\<lambda>acc.
        let md = \<lparr>md_FunctionRef = fn, md_Name = name (symbols m sp),
                  md_ArgKinds = argKinds acc, md_SLMSize = 0, md_ArgOffsets = 0,
                  md_ArgIOKinds = argInOutKinds acc, md_ArgTypeDescs = argTypeDescs acc,
                  md_NBarrierCnt = 0, md_BarrierCnt = 0\<rparr>;
            m = m\<lparr>genxKernels := genxKernels m @ [md]\<rparr>;
            m = addFnAttr fn ''oclrt'' ''1'' m
        in Inr (c, m)))"

section \<open>Function::emitCode\<close>

definition markFuncWithTargetAttr :: "Globals \<Rightarrow> addr \<Rightarrow> Module \<Rightarrow> Module" where
  "markFuncWithTargetAttr g fn m = fold (\<lambda>(k, v). addFnAttr fn k v) (targetFnAttrs g) m"

text \<open>
  \<^verbatim>\<open>Function::emitCode(ctx, function, firstStmtPos)\<close> (func.cpp 291-642); \<open>fn\<close> is the
  address of \<^verbatim>\<open>function\<close>.
\<close>

definition emitCode ::
  "Globals \<Rightarrow> Collaborators \<Rightarrow> Function \<Rightarrow> addr \<Rightarrow> SourcePos \<Rightarrow> emit_state \<Rightarrow> error + emit_state" where
  "emitCode g L f fn firstStmtPos s =
     bindE (derefSym (maskSymbol f)) (\<lambda>maskp.
     let (c, m) = s;
         m = m\<lparr>symbols := (symbols m)
                (maskp := (symbols m maskp)\<lparr>storageInfo := Some FullMaskAddressInfo\<rparr>)\<rparr>;
         m = m\<lparr>symbols := (symbols m)(maskp := (symbols m maskp)\<lparr>pos := firstStmtPos\<rparr>)\<rparr>;
         c = emit (EmitVariableDebugInfo maskp) c;
         m = (if NoOmitFramePointer g then addFnAttr fn ''no-frame-pointer-elim'' ''true'' m else m);
         m = (if archIsWasm32 g then addFnAttr fn ''target-features'' ''+simd128'' m else m);
         m = markFuncWithTargetAttr g fn m
     in
     bindE (derefSym (sym f)) (\<lambda>sp.
     case CastFunctionType (type (symbols m sp)) of
       None \<Rightarrow> Inl (AssertFailed ''type != NULL'')
     | Some ft \<Rightarrow>
     bindE (if isTask ft = True \<and> \<not> isXeTarget g
            then marshalTaskCPU f ft (functionHeap m fn) (c, m)
            else marshalRegular g L f ft (functionHeap m fn) (c, m)) (\<lambda>(argIter, (c, m)).
     let c = emit SetFunctionFTZ_DAZFlags c;
         (c, m) = (case code f of
                     None \<Rightarrow> (c, m)
                   | Some body \<Rightarrow> emitBody g L ft fn body (c, m));
         c = (if GetCurrentBasicBlock c \<noteq> None then ReturnInst c else c)
     in if ISPC_XE_ENABLED g \<and> IsISPCKernel ft
        then emitKernelMetadata g L f sp fn (c, m)
        else Inr (c, m))))"

section \<open>Function::GenerateIR\<close>

text \<open>
  Modelled from the spec: \<^verbatim>\<open>Error\<close> (util.cpp is not among the files), a diagnostic
  "reported through the shared diagnostic/error-count channel": the message is recorded
  and the error counter of the module goes up by one.
\<close>

definition Error :: "string \<Rightarrow> Module \<Rightarrow> Module" where
  "Error msg m = m\<lparr>errorCount := Suc (errorCount m), diagnostics := diagnostics m @ [msg]\<rparr>"

text \<open>
  Modelled from the spec: the constructor of \<^verbatim>\<open>FunctionEmitContext\<close> (ctx.cpp), "one
  instance per function-variant emission": a new context has an entry block that is
  current, no labels and no code.
\<close>

definition FunctionEmitContext_ctor :: FunctionEmitContext where
  "FunctionEmitContext_ctor =
     \<lparr>functionMaskValue = LLVMMaskAllOn, bblock = Some 0, labelMap = [],
      nextBlock = 1, nextAlloca = 0, emitted = []\<rparr>"

definition updFunction :: "addr \<Rightarrow> (llvm_Function \<Rightarrow> llvm_Function) \<Rightarrow> Module \<Rightarrow> Module" where
  "updFunction fn u m = m\<lparr>functionHeap := (functionHeap m)(fn := u (functionHeap m fn))\<rparr>"

text \<open>
  The two statements \<^verbatim>\<open>FunctionEmitContext ec(this, sym, function, firstStmtPos);
  emitCode(&ec, function, firstStmtPos);\<close>: the code emitted through the context is the
  body of the function.
\<close>

definition emitInto ::
  "Globals \<Rightarrow> Collaborators \<Rightarrow> Function \<Rightarrow> addr \<Rightarrow> SourcePos \<Rightarrow> Module \<Rightarrow> error + Module" where
  "emitInto g L f fn firstStmtPos m =
     bindE (emitCode g L f fn firstStmtPos (FunctionEmitContext_ctor, m)) (\<lambda>(c, m).
       Inr (updFunction fn (\<lambda>F. F\<lparr>fn_body := fn_body F @ emitted c\<rparr>) m))"

text \<open>func.cpp 669-676.\<close>

definition firstStmtPosOf :: "SourcePos \<Rightarrow> Stmt option \<Rightarrow> SourcePos" where
  "firstStmtPosOf symPos c =
     (case c of
        None \<Rightarrow> symPos
      | Some body \<Rightarrow>
          (case body of
             StmtList p (Some s0 # rest) \<Rightarrow> stmt_pos s0
           | _ \<Rightarrow> stmt_pos body))"

text \<open>
  \<^verbatim>\<open>llvm::Function::Create(ftype, linkage, name, module)\<close>: the new function is added
  to the module; when the module already has a value of that name, LLVM gives the
  new function another name, made unique by a suffix.  Which suffix is immaterial
  here: func.cpp only compares the name with the one it asked for.
\<close>

definition moduleNames :: "Module \<Rightarrow> string list" where
  "moduleNames m = map (\<lambda>a. fn_name (functionHeap m a)) (moduleFunctions m)"

definition uniqueName :: "string list \<Rightarrow> string \<Rightarrow> string" where
  "uniqueName taken base =
     (if base \<notin> set taken then base
      else (case find (\<lambda>n. n \<notin> set taken)
                   (map (\<lambda>k. base @ replicate (Suc k) (CHR ''.'')) [0..<Suc (length taken)]) of
              Some n \<Rightarrow> n
            | None \<Rightarrow> base @ ''.''))"

definition Function_Create :: "llvm_type list \<Rightarrow> string \<Rightarrow> Module \<Rightarrow> addr \<times> Module" where
  "Function_Create ftype nm m =
     (let fn = nextFunction m;
          F = \<lparr>fn_name = uniqueName (moduleNames m) nm, fn_argTypes = ftype, fn_attrs = [],
               fn_noAlias = [], fn_doesNotThrow = False, fn_callingConv = 0,
               fn_dllExport = False, fn_body = []\<rparr>
      in (fn, m\<lparr>functionHeap := (functionHeap m)(fn := F),
                moduleFunctions := moduleFunctions m @ [fn],
                nextFunction := Suc fn\<rparr>))"

definition eraseFromParent :: "addr \<Rightarrow> Module \<Rightarrow> Module" where
  "eraseFromParent fn m = m\<lparr>moduleFunctions := removeAll fn (moduleFunctions m)\<rparr>"

text \<open>The internal form (func.cpp 678-702).\<close>

definition emitInternal ::
  "Globals \<Rightarrow> Collaborators \<Rightarrow> Function \<Rightarrow> FunctionType \<Rightarrow> addr \<Rightarrow> SourcePos \<Rightarrow> Module
     \<Rightarrow> error + Module" where
  "emitInternal g L f ft fn firstStmtPos m =
     (if isXeTarget g then
        (if \<not> IsISPCKernel ft then emitInto g L f fn firstStmtPos m else Inr m)
      else
        (if \<not> ((isExternC ft \<or> isExternSYCL ft) \<and> mangleFunctionsWithTarget g)
         then emitInto g L f fn firstStmtPos m
         else Inr m))"

text \<open>
  GenerateIR up to the test of the error counter at func.cpp 704: either the function
  has returned (\<open>Inl\<close> of the module it leaves), or control is at line 704 with the
  symbol, its type, its \<^verbatim>\<open>llvm::Function\<close>, the first statement's position and the
  module as the emission of the internal form left it.
\<close>

definition GenerateIR_internal ::
  "Globals \<Rightarrow> Collaborators \<Rightarrow> Function \<Rightarrow> Module
     \<Rightarrow> error + (Module + (addr \<times> FunctionType \<times> addr \<times> SourcePos \<times> Module))" where
  "GenerateIR_internal g L f m =
     (case sym f of
        None \<Rightarrow> Inr (Inl m)
      | Some sp \<Rightarrow>
     (case llvmFunction (symbols m sp) of
        None \<Rightarrow> Inl (AssertFailed ''function != NULL'')
      | Some fn \<Rightarrow>
     if fn_body (functionHeap m fn) \<noteq> [] then
       Inr (Inl (Error (''Ignoring redefinition of function '' @ name (symbols m sp)) m))
     else
     (case CastFunctionType (type (symbols m sp)) of
        None \<Rightarrow> Inl (AssertFailed ''type != NULL'')
      | Some ft \<Rightarrow>
     if isExternSYCL ft then
       Inr (Inl (Error (''extern SYCL function cannot be defined in ISPC: '' @ name (symbols m sp)) m))
     else
       (let firstStmtPos = firstStmtPosOf (pos (symbols m sp)) (code f) in
        bindE (emitInternal g L f ft fn firstStmtPos m) (\<lambda>m.
          Inr (Inr (sp, ft, fn, firstStmtPos, m)))))))"

text \<open>The creation of the application-callable function (func.cpp 713-746).\<close>

definition copyNoAlias :: "addr \<Rightarrow> addr \<Rightarrow> Module \<Rightarrow> Module" where
  "copyNoAlias fn appFunction m =
     (let n = length (fn_argTypes (functionHeap m fn)) in
      if n > 0
      then updFunction appFunction
             (\<lambda>F. F\<lparr>fn_noAlias := fn_noAlias F @
                       filter (\<lambda>i. i \<in> set (fn_noAlias (functionHeap m fn))) [0..<n - 1]\<rparr>) m
      else m)"

definition createAppFunction ::
  "Globals \<Rightarrow> Collaborators \<Rightarrow> addr \<Rightarrow> FunctionType \<Rightarrow> addr \<Rightarrow> Module \<Rightarrow> addr \<times> string \<times> Module" where
  "createAppFunction g L sp ft fn m =
     (let ftype = LLVMFunctionType L ft True;
          (name_pref, name_suf) = GetFunctionMangledName L ft True;
          functionName = name_pref @ name (symbols m sp) @ name_suf;
          (appFunction, m) = Function_Create ftype functionName m;
          m = updFunction appFunction (\<lambda>F. F\<lparr>fn_doesNotThrow := True\<rparr>) m;
          m = updFunction appFunction (\<lambda>F. F\<lparr>fn_callingConv := GetCallingConv L ft\<rparr>) m;
          m = (if isXeTarget g then
                 (if IsISPCExternal ft then addFnAttr appFunction ''CMStackCall'' '''' m
                  else if IsISPCKernel ft then
                    addFnAttr appFunction ''CMGenxMain'' ''''
                      (updFunction appFunction (\<lambda>F. F\<lparr>fn_dllExport := True\<rparr>) m)
                  else m)
               else
                 (if targetOSIsWindows g \<and> dllExport g
                  then updFunction appFunction (\<lambda>F. F\<lparr>fn_dllExport := True\<rparr>) m
                  else m));
          m = copyNoAlias fn appFunction m;
          m = markFuncWithTargetAttr g appFunction m
      in (appFunction, functionName, m))"

text \<open>The application-callable variant (func.cpp 713-760).\<close>

definition emitApplication ::
  "Globals \<Rightarrow> Collaborators \<Rightarrow> Function \<Rightarrow> addr \<Rightarrow> FunctionType \<Rightarrow> addr \<Rightarrow> SourcePos \<Rightarrow> Module
     \<Rightarrow> error + Module" where
  "emitApplication g L f sp ft fn firstStmtPos m =
     (let (appFunction, functionName, m) = createAppFunction g L sp ft fn m in
      if fn_name (functionHeap m appFunction) \<noteq> functionName then
        Inr (eraseFromParent appFunction m)
      else
        bindE (emitInto g L f appFunction firstStmtPos m) (\<lambda>m.
          Inr (if errorCount m = 0
               then m\<lparr>symbols := (symbols m)
                        (sp := (symbols m sp)\<lparr>exportedFunction := Some appFunction\<rparr>)\<rparr>
               else m)))"

text \<open>The marking of an internal function on an accelerator target (func.cpp 762-777).\<close>

definition markInternal :: "Globals \<Rightarrow> addr \<Rightarrow> Module \<Rightarrow> Module" where
  "markInternal g fn m =
     (if isXeTarget g then
        (let m = addFnAttr fn ''CMStackCall'' '''' m in
         if \<not> (hasFnAttr (functionHeap m fn) ''noinline'' \<or>
                hasFnAttr (functionHeap m fn) ''alwaysinline'')
         then addFnAttr fn ''alwaysinline'' '''' m
         else m)
      else m)"

text \<open>\<^verbatim>\<open>Function::GenerateIR()\<close> (func.cpp 644-780).\<close>

definition GenerateIR :: "Globals \<Rightarrow> Collaborators \<Rightarrow> Function \<Rightarrow> Module \<Rightarrow> error + Module" where
  "GenerateIR g L f m =
     bindE (GenerateIR_internal g L f m) (\<lambda>r.
       case r of
         Inl m \<Rightarrow> Inr m
       | Inr (sp, ft, fn, firstStmtPos, m) \<Rightarrow>
           if errorCount m = 0 then
             (if isExported ft \<or> isExternC ft \<or> isExternSYCL ft \<or> IsISPCExternal ft \<or>
                 IsISPCKernel ft
              then emitApplication g L f sp ft fn firstStmtPos m
              else Inr (markInternal g fn m))
           else Inr m)"

section \<open>TemplateInstantiation\<close>

record TemplateInstantiation =
  functionSym :: "addr option"
  templArgs :: "string \<rightharpoonup> Type"
  symMap :: "addr \<rightharpoonup> addr"

text \<open>The heap of symbols with the address that the next \<^verbatim>\<open>new Symbol\<close> returns.\<close>

record SymbolStore =
  heap :: symbol_heap
  nextSymbol :: addr

type_synonym inst_state = "TemplateInstantiation \<times> SymbolStore"

text \<open>
  \<^verbatim>\<open>Type::ResolveDependence\<close> and \<^verbatim>\<open>Expr::Instantiate\<close> are defined in type.cpp and
  expr.cpp; both receive the instantiation by reference, so each is a function of the
  state that returns its result and the state it leaves.
\<close>

record Instantiators =
  ResolveDependence :: "Type \<Rightarrow> inst_state \<Rightarrow> Type \<times> inst_state"
  Instantiate :: "ConstExpr \<Rightarrow> inst_state \<Rightarrow> ConstExpr \<times> inst_state"

definition InstantiateType :: "TemplateInstantiation \<Rightarrow> string \<Rightarrow> Type option" where
  "InstantiateType ti n = templArgs ti n"

text \<open>
  Modelled from the spec: the constructor \<^verbatim>\<open>Symbol(name, pos, type, storageClass)\<close>
  (sym.cpp): "a new symbol", with every member that is not an argument cleared.
\<close>

definition Symbol_ctor :: "string \<Rightarrow> SourcePos \<Rightarrow> Type \<Rightarrow> nat \<Rightarrow> Symbol" where
  "Symbol_ctor n p t sc =
     \<lparr>name = n, pos = p, type = t, storageClass = sc, constValue = None,
      varyingCFDepth = 0, parentFunction = None, storageInfo = None,
      llvmFunction = None, exportedFunction = None\<rparr>"

text \<open>
  \<^verbatim>\<open>TemplateInstantiation::InstantiateSymbol\<close> (func.cpp 851-879).
  \<^verbatim>\<open>symMap.emplace\<close> inserts the pair only if the key has no entry.
\<close>

definition InstantiateSymbol ::
  "Instantiators \<Rightarrow> addr option \<Rightarrow> inst_state \<Rightarrow> addr option \<times> inst_state" where
  "InstantiateSymbol I sptr st =
     (case sptr of
        None \<Rightarrow> (None, st)
      | Some p \<Rightarrow>
          (case symMap (fst st) p of
             Some q \<Rightarrow> (Some q, st)
           | None \<Rightarrow>
               (let (instType, st) = ResolveDependence I (type (heap (snd st) p)) st;
                    (ti, hs) = st;
                    instSym = nextSymbol hs;
                    hs = hs\<lparr>heap := (heap hs)
                               (instSym := Symbol_ctor (name (heap hs p)) (pos (heap hs p))
                                             instType (storageClass (heap hs p))),
                            nextSymbol := Suc instSym\<rparr>;
                    (cv, st) = (case constValue (heap hs p) of
                                  Some e \<Rightarrow> (let (e', st') = Instantiate I e (ti, hs)
                                             in (Some e', st'))
                                | None \<Rightarrow> (None, (ti, hs)));
                    (ti, hs) = st;
                    hs = hs\<lparr>heap := (heap hs)(instSym := (heap hs instSym)\<lparr>constValue := cv\<rparr>)\<rparr>;
                    hs = hs\<lparr>heap := (heap hs)
                               (instSym := (heap hs instSym)
                                  \<lparr>varyingCFDepth := varyingCFDepth (heap hs p)\<rparr>)\<rparr>;
                    hs = hs\<lparr>heap := (heap hs)(instSym := (heap hs instSym)\<lparr>parentFunction := None\<rparr>)\<rparr>;
                    hs = hs\<lparr>heap := (heap hs)
                               (instSym := (heap hs instSym)\<lparr>storageInfo := storageInfo (heap hs p)\<rparr>)\<rparr>;
                    ti = (if symMap ti p = None
                          then ti\<lparr>symMap := (symMap ti)(p \<mapsto> instSym)\<rparr>
                          else ti)
                in (Some instSym, (ti, hs)))))"

section \<open>Notions used in the statements\<close>

text \<open>The ten thread and task symbols of a function, and the names they are looked up by.\<close>

definition taskSymNames :: "string list" where
  "taskSymNames =
     [''threadIndex'', ''threadCount'', ''taskIndex'', ''taskCount'',
      ''taskIndex0'', ''taskIndex1'', ''taskIndex2'',
      ''taskCount0'', ''taskCount1'', ''taskCount2'']"

definition taskSyms :: "Function \<Rightarrow> addr option list" where
  "taskSyms f =
     [threadIndexSym f, threadCountSym f, taskIndexSym f, taskCountSym f,
      taskIndexSym0 f, taskIndexSym1 f, taskIndexSym2 f,
      taskCountSym0 f, taskCountSym1 f, taskCountSym2 f]"

text \<open>
  The symbols that some declared parameter of a type other than a reference type
  resolves to.
\<close>

definition boundNonRef :: "symbol_heap \<Rightarrow> SymbolTable \<Rightarrow> (string \<times> Type) list \<Rightarrow> addr set" where
  "boundNonRef h tab ps =
     {q. \<exists>n t. (n, t) \<in> set ps \<and> LookupVariable h tab n = Some q \<and> CastReferenceType t = None}"

text \<open>
  The stores of formal arguments in a piece of emitted code: the position of the
  argument and the storage it is written to.
\<close>

fun argStores :: "event list \<Rightarrow> (nat \<times> AddressInfo) list" where
  "argStores [] = []"
| "argStores (Store (Argument i) a # es) = (i, a) # argStores es"
| "argStores (e # es) = argStores es"

text \<open>
  Code that copies consecutive formal arguments, from position \<open>i\<close> on, into newly
  allocated storage, from slot \<open>slot\<close> on, one per name.
\<close>

fun copiesFrom :: "nat \<Rightarrow> nat \<Rightarrow> string list \<Rightarrow> event list" where
  "copiesFrom slot i [] = []"
| "copiesFrom slot i (nm # nms) =
     Alloca slot nm # Store (Argument i) (AllocaInstOf slot) # copiesFrom (Suc slot) (Suc i) nms"

text \<open>
  The type resolution and the instantiation of the constant value of a symbol do not
  themselves record an instantiation of the symbol at \<open>p\<close>.
\<close>

definition keepsUnmapped :: "Instantiators \<Rightarrow> addr \<Rightarrow> bool" where
  "keepsUnmapped I p =
     (\<forall>st. symMap (fst st) p = None \<longrightarrow>
        (\<forall>t. symMap (fst (snd (ResolveDependence I t st))) p = None) \<and>
        (\<forall>e. symMap (fst (snd (Instantiate I e st))) p = None))"

subsection \<open>The layout of kernel arguments as the specification words it\<close>

text \<open>\<open>roundUp x a\<close> is the least multiple of \<open>a\<close> that is not below \<open>x\<close>.\<close>

definition roundUp :: "nat \<Rightarrow> nat \<Rightarrow> nat" where
  "roundUp x a = ((x + a - 1) div a) * a"

text \<open>
  One argument, on unbounded numbers: the offset is aligned to the scalar size; a
  vector argument whose offset plus size would cross a boundary of the register-file
  granule is moved up to the next boundary; then the size is added.  The result is the
  offset of the argument and the offset after it.
\<close>

definition placeArg_spec :: "nat \<Rightarrow> llvm_type \<Rightarrow> nat \<Rightarrow> nat \<times> nat" where
  "placeArg_spec grf ty off =
     (let scalar = getScalarSizeInBits ty div 8;
          aligned = (if scalar = 0 then off else roundUp off scalar);
          size = (if isVectorTy ty then getPrimitiveSizeInBits ty div 8 else scalar);
          placed = (if isVectorTy ty \<and> grf < aligned mod grf + size
                    then roundUp aligned grf else aligned)
      in (placed, placed + size))"

fun placeArgs_spec :: "nat \<Rightarrow> nat \<Rightarrow> llvm_type list \<Rightarrow> nat list" where
  "placeArgs_spec grf off [] = []"
| "placeArgs_spec grf off (ty # tys) =
     fst (placeArg_spec grf ty off) # placeArgs_spec grf (snd (placeArg_spec grf ty off)) tys"

text \<open>
  No quantity of the layout leaves the range of the machine integers that func.cpp
  computes it in.
\<close>

fun fits32 :: "nat \<Rightarrow> nat \<Rightarrow> llvm_type list \<Rightarrow> bool" where
  "fits32 grf off [] = True"
| "fits32 grf off (ty # tys) =
     (getScalarSizeInBits ty < 2 ^ 32 \<and> getPrimitiveSizeInBits ty < 2 ^ 64 \<and>
      snd (placeArg_spec grf ty off) + grf < 2 ^ 32 \<and>
      fits32 grf (snd (placeArg_spec grf ty off)) tys)"

definition kernelArgTypes :: "Collaborators \<Rightarrow> Function \<Rightarrow> Module \<Rightarrow> llvm_type list" where
  "kernelArgTypes L f m = map (\<lambda>a. LLVMType L (type (symbols m (the a)))) (args f)"

subsection \<open>The application-callable variant\<close>


text \<open>
  What the emission of code into a function leaves of a module as it is: which
  functions the module has, the name, the signature and the body of each, and the
  name, the type and the exported function of each symbol.
\<close>

definition decls ::
  "Module \<Rightarrow> addr list \<times> addr \<times> (addr \<Rightarrow> string \<times> llvm_type list \<times> event list) \<times>
             (addr \<Rightarrow> string \<times> Type \<times> addr option)" where
  "decls m =
     (moduleFunctions m, nextFunction m,
      (\<lambda>a. (fn_name (functionHeap m a), fn_argTypes (functionHeap m a),
             fn_body (functionHeap m a))),
      (\<lambda>p. (name (symbols m p), type (symbols m p), exportedFunction (symbols m p))))"

section \<open>Example inputs\<close>

text \<open>
  A translation unit with a task \<open>foo\<close> of two declared parameters, one of them a
  reference, an exported function \<open>bar\<close> and a kernel \<open>ker\<close> with a scalar and a vector
  parameter.
\<close>

definition exInt :: Type where "exInt = AtomicType ''int''"
definition exVaryingInt :: Type where "exVaryingInt = AtomicType ''varying int''"

definition exTaskType :: FunctionType where
  "exTaskType =
     FunctionType [(''a'', exInt), (''r'', ReferenceType (AtomicType ''float''))]
       True False False False False False False"

definition exExportType :: FunctionType where
  "exExportType = FunctionType [(''a'', exInt)] False False True False False False False"

definition exKernelType :: FunctionType where
  "exKernelType =
     FunctionType [(''a'', exInt), (''v'', exVaryingInt)] True False False False False False True"

definition exSymbolList :: "(addr \<times> Symbol) list" where
  "exSymbolList =
     [(8, (Symbol_ctor ''foo'' 0 (FunctionTypeOf exTaskType) 0)\<lparr>llvmFunction := Some 50\<rparr>),
      (2, Symbol_ctor ''__mask'' 0 (AtomicType ''mask'') 0),
      (3, Symbol_ctor ''a'' 0 exInt 0),
      (4, Symbol_ctor ''r'' 0 (ReferenceType (AtomicType ''float'')) 0),
      (5, (Symbol_ctor ''bar'' 0 (FunctionTypeOf exExportType) 0)\<lparr>llvmFunction := Some 51\<rparr>),
      (6, Symbol_ctor ''v'' 0 exVaryingInt 0),
      (7, (Symbol_ctor ''ker'' 0 (FunctionTypeOf exKernelType) 0)\<lparr>llvmFunction := Some 52\<rparr>),
      (10, Symbol_ctor ''threadIndex'' 0 exInt 0),
      (11, Symbol_ctor ''threadCount'' 0 exInt 0),
      (12, Symbol_ctor ''taskIndex'' 0 exInt 0),
      (13, Symbol_ctor ''taskCount'' 0 exInt 0),
      (14, Symbol_ctor ''taskIndex0'' 0 exInt 0),
      (15, Symbol_ctor ''taskIndex1'' 0 exInt 0),
      (16, Symbol_ctor ''taskIndex2'' 0 exInt 0),
      (17, Symbol_ctor ''taskCount0'' 0 exInt 0),
      (18, Symbol_ctor ''taskCount1'' 0 exInt 0),
      (19, Symbol_ctor ''taskCount2'' 0 exInt 0)]"

definition exSymbols :: symbol_heap where
  "exSymbols p =
     (case map_of exSymbolList p of
        Some s \<Rightarrow> s
      | None \<Rightarrow> Symbol_ctor [] 0 (AtomicType ''void'') 0)"

definition exTable :: SymbolTable where
  "exTable = [3, 4, 6, 2, 10, 11, 12, 13, 14, 15, 16, 17, 18, 19]"

definition exPasses :: Passes where
  "exPasses = \<lparr>TypeCheck = Some, Optimize = Some\<rparr>"

definition exBody :: Stmt where
  "exBody = StmtList 7 [Some (LabeledStmt 8 ''again'' (Some (OtherStmt 9 0 [])))]"

definition exTask :: Function where
  "exTask =
     \<lparr>sym = Some 8, code = Some exBody, maskSymbol = Some 2, args = [Some 3, Some 4],
      threadIndexSym = Some 10, threadCountSym = Some 11,
      taskIndexSym = Some 12, taskCountSym = Some 13,
      taskIndexSym0 = Some 14, taskIndexSym1 = Some 15, taskIndexSym2 = Some 16,
      taskCountSym0 = Some 17, taskCountSym1 = Some 18, taskCountSym2 = Some 19\<rparr>"

definition exExport :: Function where
  "exExport =
     \<lparr>sym = Some 5, code = Some exBody, maskSymbol = Some 2, args = [Some 3],
      threadIndexSym = None, threadCountSym = None,
      taskIndexSym = None, taskCountSym = None,
      taskIndexSym0 = None, taskIndexSym1 = None, taskIndexSym2 = None,
      taskCountSym0 = None, taskCountSym1 = None, taskCountSym2 = None\<rparr>"

definition exKernel :: Function where
  "exKernel = exTask\<lparr>sym := Some 7, args := [Some 3, Some 6]\<rparr>"

definition exMaskType :: llvm_type where
  "exMaskType = VectorTy (IntegerTy 32) 8"

definition exDeclared :: "string \<Rightarrow> llvm_type list \<Rightarrow> llvm_Function" where
  "exDeclared nm tys =
     \<lparr>fn_name = nm, fn_argTypes = tys, fn_attrs = [], fn_noAlias = [],
      fn_doesNotThrow = False, fn_callingConv = 0, fn_dllExport = False, fn_body = []\<rparr>"

definition exFunctionHeap :: "addr \<Rightarrow> llvm_Function" where
  "exFunctionHeap a =
     (if a = 50 then exDeclared ''foo___'' (PointerTy # replicate 10 (IntegerTy 32))
      else if a = 51 then exDeclared ''bar___'' [IntegerTy 32, exMaskType]
      else if a = 52 then exDeclared ''ker'' [IntegerTy 32, exMaskType]
      else exDeclared [] [])"

definition exModule :: Module where
  "exModule =
     \<lparr>errorCount = 0, diagnostics = [], symbols = exSymbols, functionHeap = exFunctionHeap,
      moduleFunctions = [50, 51, 52], nextFunction = 60, genxKernels = []\<rparr>"

definition exGlobals :: Globals where
  "exGlobals =
     \<lparr>NoOmitFramePointer = False, archIsWasm32 = False, isXeTarget = False,
      getMaskingIsFree = False, emitXeHardwareMask = False, getXeGrfSize = 32,
      targetFnAttrs = [], disableCoherentControlFlow = False,
      disableMaskAllOnOptimizations = False, mangleFunctionsWithTarget = False,
      targetOSIsWindows = False, dllExport = False, ISPC_XE_ENABLED = False,
      CHECK_MASK_AT_FUNCTION_START_COST = 16, LLVMMaskType = exMaskType\<rparr>"

definition exLLVMType :: "Type \<Rightarrow> llvm_type" where
  "exLLVMType t =
     (if t = exInt then IntegerTy 32
      else if t = exVaryingInt then VectorTy (IntegerTy 32) 8
      else PointerTy)"

definition exCollaborators :: Collaborators where
  "exCollaborators =
     \<lparr>EstimateCost = (\<lambda>s. 100),
      StmtEmitCode = (\<lambda>s e. \<lparr>newBlocks = 1, exitBlock = entryBlock e,
                                exitMask = entryMask e, reportedErrors = 0\<rparr>),
      LLVMType = exLLVMType,
      LLVMFunctionType = (\<lambda>ft removeMask.
         map (\<lambda>p. exLLVMType (snd p)) (params ft) @
         (if removeMask \<or> isUnmasked ft then [] else [exMaskType])),
      GetFunctionMangledName = (\<lambda>ft appFunction. if appFunction then ([], []) else ([], ''___'')),
      GetCallingConv = (\<lambda>ft. 0)\<rparr>"

definition exInstantiators :: Instantiators where
  "exInstantiators =
     \<lparr>ResolveDependence = (\<lambda>t st. (case t of
                                        TemplateTypeParmType n \<Rightarrow>
                                          (case InstantiateType (fst st) n of
                                             Some t' \<Rightarrow> t'
                                           | None \<Rightarrow> t)
                                      | _ \<Rightarrow> t, st)),
      Instantiate = (\<lambda>e st. (e, st))\<rparr>"

definition exInstantiation :: inst_state where
  "exInstantiation =
     (\<lparr>functionSym = None, templArgs = [''T'' \<mapsto> exInt], symMap = Map.empty\<rparr>,
      \<lparr>heap = exSymbols(30 := Symbol_ctor ''x'' 0 (TemplateTypeParmType ''T'') 0),
       nextSymbol = 100\<rparr>)"

text \<open>
  A function type that declares a parameter of a reference type and a parameter of
  another type under one name, \<open>(float &a, int a)\<close>, and the symbol of a function
  \<open>dup\<close> of that type.
\<close>

definition exDupType :: FunctionType where
  "exDupType =
     FunctionType [(''a'', ReferenceType (AtomicType ''float'')), (''a'', exInt)]
       False False False False False False False"

definition exDupSymbols :: symbol_heap where
  "exDupSymbols = exSymbols(9 := Symbol_ctor ''dup'' 0 (FunctionTypeOf exDupType) 0)"


section \<open>Basic facts\<close>

lemma bindE_Inr: "bindE m k = Inr r \<Longrightarrow> \<exists>x. m = Inr x \<and> k x = Inr r"
  by (cases m) (simp_all add: bindE_def)

lemma bindE_simps [simp]: "bindE (Inr x) k = k x" "bindE (Inl e) k = Inl e"
  by (simp_all add: bindE_def)

lemma bodyCopies_append [simp]: "bodyCopies (xs @ ys) = bodyCopies xs @ bodyCopies ys"
  by (induction xs rule: bodyCopies.induct) simp_all

lemma argStores_append [simp]: "argStores (xs @ ys) = argStores xs @ argStores ys"
  by (induction xs rule: argStores.induct) simp_all

section \<open>Construction of a Function\<close>

lemma typeCheckAndOptimize_code_only:
  "\<exists>c'. typeCheckAndOptimize P f = f\<lparr>code := c'\<rparr>"
  by (auto simp: typeCheckAndOptimize_def split: option.splits intro: exI[of _ "code f"])

lemma taskSyms_typeCheckAndOptimize [simp]:
  "taskSyms (typeCheckAndOptimize P f) = taskSyms f"
  using typeCheckAndOptimize_code_only[of P f] by (auto simp: taskSyms_def)

lemma args_typeCheckAndOptimize [simp]:
  "args (typeCheckAndOptimize P f) = args f"
  using typeCheckAndOptimize_code_only[of P f] by auto

lemma lookupAsserted_Inr:
  "lookupAsserted h tab n = Inr r \<Longrightarrow> r = LookupVariable h tab n \<and> r \<noteq> None"
  by (cases "LookupVariable h tab n") (auto simp: lookupAsserted_def)

lemma bindTaskSymbols_task:
  assumes "bindTaskSymbols h tab ft f0 = Inr f" and "isTask ft"
  shows "taskSyms f = map (LookupVariable h tab) taskSymNames \<and>
         list_all (\<lambda>p. p \<noteq> None) (taskSyms f)"
  using assms unfolding bindTaskSymbols_def
  by (auto dest!: bindE_Inr lookupAsserted_Inr simp: taskSyms_def taskSymNames_def)

lemma bindTaskSymbols_plain:
  assumes "bindTaskSymbols h tab ft f0 = Inr f" and "\<not> isTask ft"
  shows "list_all (\<lambda>p. p = None) (taskSyms f)"
  using assms unfolding bindTaskSymbols_def
  by (auto simp: taskSyms_def)

lemma bindTaskSymbols_frame:
  "bindTaskSymbols h tab ft f0 = Inr f \<Longrightarrow>
     args f = args f0 \<and> sym f = sym f0 \<and> code f = code f0 \<and> maskSymbol f = maskSymbol f0"
  unfolding bindTaskSymbols_def
  by (auto split: if_splits dest!: bindE_Inr)

lemma Function_ctor_stages:
  assumes run: "Function_ctor P tab this (Some sp) c h = Inr (f, h')"
      and ft: "CastFunctionType (type (h sp)) = Some ft"
  shows "\<exists>f0 f1. bindParams tab this (params ft) [] h = Inr (args f, h') \<and>
                  bindTaskSymbols h' tab ft f0 = Inr f1 \<and>
                  f = typeCheckAndOptimize P f1"
  using run ft
  by (auto simp: Function_ctor_def split: option.splits dest!: bindE_Inr
           dest: bindTaskSymbols_frame)

text \<open>
  C4.  After the construction of a Function, if the function type is a task then all
  ten thread and task symbols (threadIndex, threadCount, taskIndex, taskCount,
  taskIndex0-2, taskCount0-2) are bound, each to the symbol found under its name, and
  none is null; if the function type is not a task, all ten are null.
\<close>

theorem Function_ctor_task_symbols:
  assumes run: "Function_ctor P tab this (Some sp) c h = Inr (f, h')"
      and ft: "CastFunctionType (type (h sp)) = Some ft"
  shows "if isTask ft
         then taskSyms f = map (LookupVariable h' tab) taskSymNames \<and>
              list_all (\<lambda>p. p \<noteq> None) (taskSyms f)
         else list_all (\<lambda>p. p = None) (taskSyms f)"
proof -
  from Function_ctor_stages[OF run ft] obtain f0 f1 where
    bt: "bindTaskSymbols h' tab ft f0 = Inr f1" and f: "f = typeCheckAndOptimize P f1"
    by blast
  show ?thesis
  proof (cases "isTask ft")
    case True
    from bindTaskSymbols_task[OF bt True] show ?thesis
      unfolding f taskSyms_typeCheckAndOptimize using True by auto
  next
    case False
    from bindTaskSymbols_plain[OF bt False] show ?thesis
      unfolding f taskSyms_typeCheckAndOptimize using False by auto
  qed
qed

lemma LookupVariable_parent_upd [simp]:
  "LookupVariable (h(p := (h p)\<lparr>parentFunction := x\<rparr>)) tab n = LookupVariable h tab n"
proof -
  have "(\<lambda>q. name ((h(p := (h p)\<lparr>parentFunction := x\<rparr>)) q) = n) = (\<lambda>q. name (h q) = n)"
    by (rule ext) simp
  then show ?thesis by (simp add: LookupVariable_def)
qed

lemma LookupVariable_name:
  "LookupVariable h tab n = Some p \<Longrightarrow> name (h p) = n"
  by (auto simp: LookupVariable_def find_Some_iff)

lemma boundNonRef_Nil [simp]: "boundNonRef h tab [] = {}"
  by (simp add: boundNonRef_def)

lemma boundNonRef_Cons:
  "boundNonRef h tab ((n, t) # ps) =
     (case LookupVariable h tab n of
        Some q \<Rightarrow> if CastReferenceType t = None then {q} else {}
      | None \<Rightarrow> {}) \<union> boundNonRef h tab ps"
  by (auto simp: boundNonRef_def split: option.splits)

lemma boundNonRef_parent_upd [simp]:
  "boundNonRef (h(p := (h p)\<lparr>parentFunction := x\<rparr>)) tab ps = boundNonRef h tab ps"
  by (simp add: boundNonRef_def)

text \<open>
  The loop over the parameters looks every name up and writes the back-reference into
  exactly the symbols of the parameters that are not of a reference type.
\<close>

lemma bindParams_result:
  "bindParams tab this ps as h = Inr (as', h') \<Longrightarrow>
     as' = as @ map (\<lambda>(n, t). LookupVariable h tab n) ps \<and>
     h' = (\<lambda>q. if q \<in> boundNonRef h tab ps then (h q)\<lparr>parentFunction := Some this\<rparr> else h q)"
proof (induction ps arbitrary: as h)
  case Nil
  then show ?case by simp
next
  case (Cons a ps)
  obtain n t where a: "a = (n, t)" by (cases a)
  show ?case
  proof (cases "LookupVariable h tab n")
    case None
    with Cons.prems a have "bindParams tab this ps (as @ [None]) h = Inr (as', h')"
      by (auto simp: Let_def dest!: bindE_Inr)
    from Cons.IH[OF this] None a show ?thesis
      by (simp add: boundNonRef_Cons)
  next
    case (Some p)
    show ?thesis
    proof (cases "CastReferenceType t = None")
      case True
      with Cons.prems a Some
      have "bindParams tab this ps (as @ [Some p]) (h(p := (h p)\<lparr>parentFunction := Some this\<rparr>))
              = Inr (as', h')"
        by (auto simp: Let_def dest!: bindE_Inr)
      from Cons.IH[OF this]
      have as': "as' = (as @ [Some p]) @ map (\<lambda>(n, t). LookupVariable h tab n) ps"
       and h'eq: "h' = (\<lambda>q. if q \<in> boundNonRef h tab ps
                           then ((h(p := (h p)\<lparr>parentFunction := Some this\<rparr>)) q)
                                  \<lparr>parentFunction := Some this\<rparr>
                           else (h(p := (h p)\<lparr>parentFunction := Some this\<rparr>)) q)"
        by (simp_all only: LookupVariable_parent_upd boundNonRef_parent_upd)
      have "h' = (\<lambda>q. if q \<in> insert p (boundNonRef h tab ps)
                      then (h q)\<lparr>parentFunction := Some this\<rparr> else h q)"
        unfolding h'eq by (rule ext) simp
      with as' Some a True show ?thesis
        by (simp add: boundNonRef_Cons)
    next
      case False
      with Cons.prems a Some
      have "bindParams tab this ps (as @ [Some p]) h = Inr (as', h')"
        by (auto simp: Let_def dest!: bindE_Inr)
      from Cons.IH[OF this] Some a False show ?thesis
        by (auto simp: boundNonRef_Cons)
    qed
  qed
qed

text \<open>
  C6, as amended.  After the construction of a Function, the parameter symbol sequence
  (args) is as long as the function type has declared parameters and holds, position
  by position, the symbol found under the parameter's name.  The symbol of a parameter
  that is not of a reference type has this Function as its parent function.  The
  symbol of a parameter of a reference type keeps the parent-function back-reference
  it had (the constructor gives it none) when no parameter of another kind of type is
  declared under the same name; when there is one, both resolve to one symbol, which
  has this Function as its parent function.  An anonymous parameter has no symbol (its
  entry is null).
\<close>

theorem Function_ctor_parameters:
  assumes run: "Function_ctor P tab this (Some sp) c h = Inr (f, h')"
      and ft: "CastFunctionType (type (h sp)) = Some ft"
  shows "length (args f) = GetNumParameters ft \<and>
         (\<forall>i < GetNumParameters ft.
            args f ! i = LookupVariable h tab (fst (params ft ! i)) \<and>
            (case args f ! i of
               None \<Rightarrow> True
             | Some p \<Rightarrow>
                 if CastReferenceType (snd (params ft ! i)) = None
                 then parentFunction (h' p) = Some this
                 else if (\<exists>j < GetNumParameters ft.
                            fst (params ft ! j) = fst (params ft ! i) \<and>
                            CastReferenceType (snd (params ft ! j)) = None)
                      then parentFunction (h' p) = Some this
                      else parentFunction (h' p) = parentFunction (h p)))"
proof -
  from Function_ctor_stages[OF run ft]
  have bp: "bindParams tab this (params ft) [] h = Inr (args f, h')" by blast
  from bindParams_result[OF bp]
  have as: "args f = map (\<lambda>(n, t). LookupVariable h tab n) (params ft)"
   and h': "h' = (\<lambda>q. if q \<in> boundNonRef h tab (params ft)
                       then (h q)\<lparr>parentFunction := Some this\<rparr> else h q)"
    by simp_all
  have len: "length (args f) = GetNumParameters ft"
    by (simp add: as GetNumParameters_def)
  have at: "args f ! i = LookupVariable h tab (fst (params ft ! i)) \<and>
            (case args f ! i of
               None \<Rightarrow> True
             | Some p \<Rightarrow>
                 if CastReferenceType (snd (params ft ! i)) = None
                 then parentFunction (h' p) = Some this
                 else if (\<exists>j < GetNumParameters ft.
                            fst (params ft ! j) = fst (params ft ! i) \<and>
                            CastReferenceType (snd (params ft ! j)) = None)
                      then parentFunction (h' p) = Some this
                      else parentFunction (h' p) = parentFunction (h p))"
    if i: "i < GetNumParameters ft" for i
  proof -
    obtain n t where nt: "params ft ! i = (n, t)" by (cases "params ft ! i")
    from i have il: "i < length (params ft)" by (simp add: GetNumParameters_def)
    have ai: "args f ! i = LookupVariable h tab n"
      using il nt by (simp add: as)
    show ?thesis
    proof (cases "LookupVariable h tab n")
      case None
      then show ?thesis using ai nt by simp
    next
      case (Some p)
      note found = this
      have bound: "p \<in> boundNonRef h tab (params ft) \<longleftrightarrow>
                     (\<exists>j < GetNumParameters ft.
                        fst (params ft ! j) = n \<and> CastReferenceType (snd (params ft ! j)) = None)"
      proof
        assume "p \<in> boundNonRef h tab (params ft)"
        then obtain n' t' where m': "(n', t') \<in> set (params ft)"
          and l': "LookupVariable h tab n' = Some p" and r': "CastReferenceType t' = None"
          by (auto simp: boundNonRef_def)
        from LookupVariable_name[OF l'] LookupVariable_name[OF found] have "n' = n" by simp
        moreover from m' obtain j where "j < length (params ft)" "params ft ! j = (n', t')"
          by (auto simp: in_set_conv_nth)
        ultimately show "\<exists>j < GetNumParameters ft.
                        fst (params ft ! j) = n \<and> CastReferenceType (snd (params ft ! j)) = None"
          using r' by (auto simp: GetNumParameters_def)
      next
        assume "\<exists>j < GetNumParameters ft.
                  fst (params ft ! j) = n \<and> CastReferenceType (snd (params ft ! j)) = None"
        then obtain j where j: "j < length (params ft)" "fst (params ft ! j) = n"
          "CastReferenceType (snd (params ft ! j)) = None"
          by (auto simp: GetNumParameters_def)
        then have "(n, snd (params ft ! j)) \<in> set (params ft)"
          by (metis nth_mem prod.collapse)
        with j(3) found show "p \<in> boundNonRef h tab (params ft)"
          by (auto simp: boundNonRef_def)
      qed
      show ?thesis
      proof (cases "CastReferenceType t")
        case None
        then have "p \<in> boundNonRef h tab (params ft)"
          unfolding bound using i nt by (intro exI[of _ i]) simp
        then show ?thesis using ai nt found None by (simp add: h')
      next
        case (Some rt)
        define shared where
          "shared \<longleftrightarrow> (\<exists>j < GetNumParameters ft.
                         fst (params ft ! j) = fst (params ft ! i) \<and>
                         CastReferenceType (snd (params ft ! j)) = None)"
        have sh: "p \<in> boundNonRef h tab (params ft) \<longleftrightarrow> shared"
          unfolding bound shared_def by (simp add: nt)
        have pf: "parentFunction (h' p) =
                    (if shared then Some this else parentFunction (h p))"
          by (simp add: h' sh)
        have "args f ! i = LookupVariable h tab (fst (params ft ! i)) \<and>
            (case args f ! i of
               None \<Rightarrow> True
             | Some p \<Rightarrow>
                 if CastReferenceType (snd (params ft ! i)) = None
                 then parentFunction (h' p) = Some this
                 else if shared
                      then parentFunction (h' p) = Some this
                      else parentFunction (h' p) = parentFunction (h p))"
          using ai nt found Some pf by simp
        then show ?thesis unfolding shared_def .
      qed
    qed
  qed
  from len at show ?thesis by blast
qed

section \<open>The mask check and the two copies of the body\<close>

text \<open>
  C2.  For every emission of a function body, checkMask is true if and only if: (the
  function is a task on a target that is not an accelerator, or the function is not
  marked always-inline and the cost estimate of the body exceeds the fixed threshold),
  and the function type is not unmasked, and the target does not report masking as
  free, and the coherent-control-flow optimisation is not globally disabled.
\<close>

theorem checkMask_iff_spec:
  "checkMask g ft F costEstimate = checkMask_spec g ft F costEstimate"
  by (auto simp: checkMask_def checkMask_spec_def Let_def)

text \<open>A fold of label initialisation only appends newly created blocks.\<close>

lemma initLabelBBlocks_fold:
  "\<exists>new. labelMap (fold initLabelBBlocks ls c) = labelMap c @ new \<and>
     (\<forall>b \<in> set (map snd new). nextBlock c \<le> b \<and> b < nextBlock (fold initLabelBBlocks ls c)) \<and>
     distinct (map snd new) \<and>
     set (map fst new) = set ls - set (map fst (labelMap c)) \<and>
     nextBlock c \<le> nextBlock (fold initLabelBBlocks ls c) \<and>
     functionMaskValue (fold initLabelBBlocks ls c) = functionMaskValue c \<and>
     bblock (fold initLabelBBlocks ls c) = bblock c \<and>
     emitted (fold initLabelBBlocks ls c) = emitted c \<and>
     nextAlloca (fold initLabelBBlocks ls c) = nextAlloca c"
proof (induction ls arbitrary: c)
  case Nil
  then show ?case by simp
next
  case (Cons n ls)
  define c1 where "c1 = initLabelBBlocks n c"
  define c2 where "c2 = fold initLabelBBlocks ls c1"
  have c2: "fold initLabelBBlocks (n # ls) c = c2"
    by (simp add: c1_def c2_def)
  from Cons.IH[of c1] obtain new where
    lm: "labelMap c2 = labelMap c1 @ new" and
    rng: "\<forall>b \<in> set (map snd new). nextBlock c1 \<le> b \<and> b < nextBlock c2" and
    dist: "distinct (map snd new)" and
    keys: "set (map fst new) = set ls - set (map fst (labelMap c1))" and
    mono: "nextBlock c1 \<le> nextBlock c2" and
    frame: "functionMaskValue c2 = functionMaskValue c1"
           "bblock c2 = bblock c1"
           "emitted c2 = emitted c1"
           "nextAlloca c2 = nextAlloca c1"
    unfolding c2_def by blast
  show ?case unfolding c2
  proof (cases "n \<in> set (map fst (labelMap c))")
    case True
    then have c1: "c1 = c" by (simp add: c1_def initLabelBBlocks_def)
    show "\<exists>new. labelMap c2 = labelMap c @ new \<and>
     (\<forall>b \<in> set (map snd new). nextBlock c \<le> b \<and> b < nextBlock c2) \<and>
     distinct (map snd new) \<and>
     set (map fst new) = set (n # ls) - set (map fst (labelMap c)) \<and>
     nextBlock c \<le> nextBlock c2 \<and>
     functionMaskValue c2 = functionMaskValue c \<and>
     bblock c2 = bblock c \<and>
     emitted c2 = emitted c \<and>
     nextAlloca c2 = nextAlloca c"
      apply (rule exI[of _ new])
      using lm rng dist keys mono frame True unfolding c1 by auto
  next
    case False
    then have "c1 = c\<lparr>nextBlock := Suc (nextBlock c),
                       labelMap := labelMap c @ [(n, nextBlock c)]\<rparr>"
      by (simp add: c1_def initLabelBBlocks_def CreateBasicBlock_def)
    then have c1s: "labelMap c1 = labelMap c @ [(n, nextBlock c)]"
      "nextBlock c1 = Suc (nextBlock c)"
      "functionMaskValue c1 = functionMaskValue c" "bblock c1 = bblock c"
      "emitted c1 = emitted c" "nextAlloca c1 = nextAlloca c"
      by simp_all
    show "\<exists>new. labelMap c2 = labelMap c @ new \<and>
     (\<forall>b \<in> set (map snd new). nextBlock c \<le> b \<and> b < nextBlock c2) \<and>
     distinct (map snd new) \<and>
     set (map fst new) = set (n # ls) - set (map fst (labelMap c)) \<and>
     nextBlock c \<le> nextBlock c2 \<and>
     functionMaskValue c2 = functionMaskValue c \<and>
     bblock c2 = bblock c \<and>
     emitted c2 = emitted c \<and>
     nextAlloca c2 = nextAlloca c"
      apply (rule exI[of _ "(n, nextBlock c) # new"])
      using lm rng dist keys mono frame False unfolding c1s
      by (auto simp: rev_image_eqI)
  qed
qed

lemma InitializeLabelMap_props:
  "(\<forall>b \<in> set (map snd (labelMap (InitializeLabelMap body c))).
       nextBlock c \<le> b \<and> b < nextBlock (InitializeLabelMap body c)) \<and>
   distinct (map snd (labelMap (InitializeLabelMap body c))) \<and>
   set (map fst (labelMap (InitializeLabelMap body c))) = set (labelsOf body) \<and>
   nextBlock c \<le> nextBlock (InitializeLabelMap body c) \<and>
   functionMaskValue (InitializeLabelMap body c) = functionMaskValue c \<and>
   bblock (InitializeLabelMap body c) = bblock c \<and>
   emitted (InitializeLabelMap body c) = emitted c \<and>
   nextAlloca (InitializeLabelMap body c) = nextAlloca c"
  using initLabelBBlocks_fold[of "labelsOf body" "c\<lparr>labelMap := []\<rparr>"]
  unfolding InitializeLabelMap_def by auto

lemma EmitCode_props:
  "emitted (fst (EmitCode L body (c, m))) =
     emitted c @ [EmitBody \<lparr>entryBlock = bblock c, entryMask = functionMaskValue c,
                            entryLabels = labelMap c\<rparr>] \<and>
   nextBlock c \<le> nextBlock (fst (EmitCode L body (c, m)))"
  by (simp add: EmitCode_def Let_def emit_def)

lemma ReturnInst_props:
  "bodyCopies (emitted (if GetCurrentBasicBlock c \<noteq> None then ReturnInst c else c)) =
     bodyCopies (emitted c) \<and>
   nextBlock (if GetCurrentBasicBlock c \<noteq> None then ReturnInst c else c) = nextBlock c"
  by (simp add: ReturnInst_def emit_def)

lemma emitBodyChecked_copies:
  "\<exists>allOn someOn.
     bodyCopies (emitted (fst (emitBodyChecked g L body (c, m)))) =
       bodyCopies (emitted c) @ [allOn, someOn] \<and>
     entryMask someOn = GetFunctionMask c \<and>
     entryMask allOn =
       (if disableMaskAllOnOptimizations g then GetFunctionMask c else LLVMMaskAllOn) \<and>
     entryBlock allOn = Some (nextBlock c) \<and>
     entryBlock someOn = Some (Suc (nextBlock c)) \<and>
     set (map fst (entryLabels allOn)) = set (labelsOf body) \<and>
     set (map fst (entryLabels someOn)) = set (labelsOf body) \<and>
     distinct (nextBlock c # Suc (nextBlock c) #
               map snd (entryLabels allOn) @ map snd (entryLabels someOn))"
proof -
  define c3 where "c3 = c\<lparr>nextBlock := Suc (Suc (nextBlock c))\<rparr>"
  define c4 where "c4 = InitializeLabelMap body c3"
  define c6 where "c6 = SetCurrentBasicBlock (nextBlock c)
     (BranchInst (nextBlock c) (Suc (nextBlock c)) (AllOf (GetFunctionMask c)) c4)"
  define c7 where
    "c7 = (if \<not> disableMaskAllOnOptimizations g then SetFunctionMask LLVMMaskAllOn c6 else c6)"
  define s8 where "s8 = EmitCode L body (c7, m)"
  define c9 where
    "c9 = (if GetCurrentBasicBlock (fst s8) \<noteq> None then ReturnInst (fst s8) else fst s8)"
  define c11 where
    "c11 = SetFunctionMask (GetFunctionMask c) (SetCurrentBasicBlock (Suc (nextBlock c)) c9)"
  define c12 where "c12 = InitializeLabelMap body c11"
  define s13 where "s13 = EmitCode L body (c12, snd s8)"
  define c14 where
    "c14 = (if GetCurrentBasicBlock (fst s13) \<noteq> None then ReturnInst (fst s13) else fst s13)"
  have res: "fst (emitBodyChecked g L body (c, m)) = c14"
    unfolding emitBodyChecked_def c14_def s13_def c12_def c11_def c9_def s8_def c7_def c6_def
      c4_def c3_def
    by (simp add: CreateBasicBlock_def Let_def split_def split del: if_split cong: if_cong)
  note p4 = InitializeLabelMap_props[of body c3, folded c4_def]
  note p12 = InitializeLabelMap_props[of body c11, folded c12_def]
  have c7f: "emitted c7 = emitted c @
               [CondBranch (nextBlock c) (Suc (nextBlock c)) (AllOf (GetFunctionMask c))]"
            "labelMap c7 = labelMap c4" "nextBlock c7 = nextBlock c4"
            "bblock c7 = Some (nextBlock c)"
            "functionMaskValue c7 =
               (if disableMaskAllOnOptimizations g then GetFunctionMask c else LLVMMaskAllOn)"
    using p4 by (simp_all add: c7_def c6_def c3_def BranchInst_def SetCurrentBasicBlock_def
        SetFunctionMask_def emit_def Let_def GetFunctionMask_def)
  note p8 = EmitCode_props[of L body c7 m, folded s8_def]
  have c9f: "bodyCopies (emitted c9) = bodyCopies (emitted (fst s8))"
            "nextBlock c9 = nextBlock (fst s8)"
    using ReturnInst_props[of "fst s8"] by (simp_all add: c9_def)
  have c11f: "emitted c11 = emitted c9" "nextBlock c11 = nextBlock c9"
             "bblock c11 = Some (Suc (nextBlock c))" "functionMaskValue c11 = GetFunctionMask c"
    by (simp_all add: c11_def SetFunctionMask_def SetCurrentBasicBlock_def)
  note p13 = EmitCode_props[of L body c12 "snd s8", folded s13_def]
  have c14f: "bodyCopies (emitted c14) = bodyCopies (emitted (fst s13))"
    using ReturnInst_props[of "fst s13"] by (simp add: c14_def)
  let ?allOn = "\<lparr>entryBlock = bblock c7, entryMask = functionMaskValue c7,
                 entryLabels = labelMap c7\<rparr>"
  let ?someOn = "\<lparr>entryBlock = bblock c12, entryMask = functionMaskValue c12,
                  entryLabels = labelMap c12\<rparr>"
  have copies: "bodyCopies (emitted c14) = bodyCopies (emitted c) @ [?allOn, ?someOn]"
    using c14f p13 p12 c11f c9f p8 c7f by simp
  have n3: "nextBlock c3 = Suc (Suc (nextBlock c))" by (simp add: c3_def)
  have lo4: "\<forall>b \<in> set (map snd (labelMap c4)). Suc (Suc (nextBlock c)) \<le> b \<and> b < nextBlock c4"
    using p4 n3 by simp
  have le: "nextBlock c4 \<le> nextBlock c11"
    using p8 c7f c9f c11f by simp
  have lo12: "\<forall>b \<in> set (map snd (labelMap c12)). nextBlock c4 \<le> b"
    using p12 le by auto
  have disj: "set (map snd (labelMap c4)) \<inter> set (map snd (labelMap c12)) = {}"
    using lo4 lo12 by fastforce
  have notbb: "nextBlock c \<notin> set (map snd (labelMap c4))"
              "Suc (nextBlock c) \<notin> set (map snd (labelMap c4))"
    using lo4 by fastforce+
  have n4: "Suc (Suc (nextBlock c)) \<le> nextBlock c4" using p4 n3 by simp
  have notbb12: "nextBlock c \<notin> set (map snd (labelMap c12))"
                "Suc (nextBlock c) \<notin> set (map snd (labelMap c12))"
    using lo12 n4 by fastforce+
  have dist: "distinct (nextBlock c # Suc (nextBlock c) #
                        map snd (labelMap c4) @ map snd (labelMap c12))"
    using p4 p12 disj notbb notbb12 by simp
  show ?thesis
    apply (rule exI[of _ ?allOn], rule exI[of _ ?someOn])
    unfolding res
    using copies dist p4 p12 c7f c11f by simp
qed

text \<open>
  C1.  For every function emitted with checkMask true, the body is emitted exactly
  twice; the mask at the start of the "some on" copy equals the mask read from the
  emission context before the all-on/some-on branch (the all-on override of the first
  copy does not reach it); the two copies start in different blocks, each is emitted
  against a label map that has a block for every goto label of the body, and the
  label blocks of the "some on" copy are newly created: no block serves both copies.
\<close>

theorem emitBody_mask_restored_labels_separate:
  assumes "checkMask g ft (functionHeap m fn) (EstimateCost L body)"
  shows "\<exists>allOn someOn.
     bodyCopies (emitted (fst (emitBody g L ft fn body (c, m)))) =
       bodyCopies (emitted c) @ [allOn, someOn] \<and>
     entryMask someOn = GetFunctionMask c \<and>
     entryMask allOn =
       (if disableMaskAllOnOptimizations g then GetFunctionMask c else LLVMMaskAllOn) \<and>
     entryBlock allOn \<noteq> entryBlock someOn \<and>
     set (map fst (entryLabels allOn)) = set (labelsOf body) \<and>
     set (map fst (entryLabels someOn)) = set (labelsOf body) \<and>
     distinct (map snd (entryLabels allOn) @ map snd (entryLabels someOn))"
proof -
  define c0 where
    "c0 = emit (AddInstrumentationPoint ''function entry'') (emit (SetDebugPos (stmt_pos body)) c)"
  have c0f: "bodyCopies (emitted c0) = bodyCopies (emitted c)"
    "GetFunctionMask c0 = GetFunctionMask c" "nextBlock c0 = nextBlock c"
    by (simp_all add: c0_def emit_def GetFunctionMask_def)
  have "emitBody g L ft fn body (c, m) = emitBodyChecked g L body (c0, m)"
    using assms by (simp add: emitBody_def c0_def Let_def)
  then show ?thesis
    using emitBodyChecked_copies[of g L body c0 m] c0f by auto
qed

section \<open>Marshalling of a CPU task\<close>

lemma nextArg_Inr:
  "nextArg F i = Inr (v, j) \<Longrightarrow> v = Argument i \<and> j = Suc i \<and> i < length (fn_argTypes F)"
  by (auto simp: nextArg_def derefArg_def split: if_splits)

lemma nextArg_ok: "i < length (fn_argTypes F) \<Longrightarrow> nextArg F i = Inr (Argument i, Suc i)"
  by (simp add: nextArg_def derefArg_def)

lemma copyToLocal_Inr:
  "copyToLocal sptr nm v (c, m) = Inr (c', m') \<Longrightarrow>
     emitted c' = emitted c @ [Alloca (nextAlloca c) nm, Store v (AllocaInstOf (nextAlloca c))] \<and>
     nextAlloca c' = Suc (nextAlloca c) \<and>
     functionMaskValue c' = functionMaskValue c"
  by (auto simp: copyToLocal_def derefSym_def AllocaInst_def StoreInst_def emit_def Let_def
           split: option.splits)

lemma lCopyInTaskParameter_Inr:
  "lCopyInTaskParameter i F st as (c, m) = Inr (c', m') \<Longrightarrow>
     \<exists>pre. emitted c' = emitted c @ pre \<and> argStores pre = [] \<and>
           functionMaskValue c' = functionMaskValue c"
  by (auto simp: lCopyInTaskParameter_def Assert_def AllocaInst_def StoreInst_def LoadInst_def
                 emit_def Let_def
           split: option.splits if_splits)

lemma foldE_lCopyInTaskParameter:
  "foldE (\<lambda>i. lCopyInTaskParameter i F st as) is (c, m) = Inr (c', m') \<Longrightarrow>
     \<exists>pre. emitted c' = emitted c @ pre \<and> argStores pre = [] \<and>
           functionMaskValue c' = functionMaskValue c"
proof (induction "is" arbitrary: c m)
  case Nil
  then show ?case by simp
next
  case (Cons i "is")
  from Cons.prems obtain c1 m1 where
    st: "lCopyInTaskParameter i F st as (c, m) = Inr (c1, m1)" and
    rest: "foldE (\<lambda>i. lCopyInTaskParameter i F st as) is (c1, m1) = Inr (c', m')"
    by (auto dest!: bindE_Inr)
  from lCopyInTaskParameter_Inr[OF st] Cons.IH[OF rest] show ?case
    by auto
qed

lemma copy_chain:
  assumes "bindE (copyToLocal p1 n1 v1 (c2, m2)) (\<lambda>s.
     bindE (copyToLocal p2 n2 v2 s) (\<lambda>s.
     bindE (copyToLocal p3 n3 v3 s) (\<lambda>s.
     bindE (copyToLocal p4 n4 v4 s) (\<lambda>s.
     bindE (copyToLocal p5 n5 v5 s) (\<lambda>s.
     bindE (copyToLocal p6 n6 v6 s) (\<lambda>s.
     bindE (copyToLocal p7 n7 v7 s) (\<lambda>s.
     bindE (copyToLocal p8 n8 v8 s) (\<lambda>s.
     bindE (copyToLocal p9 n9 v9 s) (\<lambda>s.
     bindE (copyToLocal p10 n10 v10 s) (\<lambda>s.
       Inr (k, s))))))))))) = Inr (argIter, (c', m'))"
  shows "argIter = k \<and> functionMaskValue c' = functionMaskValue c2 \<and>
         emitted c' = emitted c2 @
           [Alloca (nextAlloca c2) n1, Store v1 (AllocaInstOf (nextAlloca c2)),
            Alloca (nextAlloca c2 + 1) n2, Store v2 (AllocaInstOf (nextAlloca c2 + 1)),
            Alloca (nextAlloca c2 + 2) n3, Store v3 (AllocaInstOf (nextAlloca c2 + 2)),
            Alloca (nextAlloca c2 + 3) n4, Store v4 (AllocaInstOf (nextAlloca c2 + 3)),
            Alloca (nextAlloca c2 + 4) n5, Store v5 (AllocaInstOf (nextAlloca c2 + 4)),
            Alloca (nextAlloca c2 + 5) n6, Store v6 (AllocaInstOf (nextAlloca c2 + 5)),
            Alloca (nextAlloca c2 + 6) n7, Store v7 (AllocaInstOf (nextAlloca c2 + 6)),
            Alloca (nextAlloca c2 + 7) n8, Store v8 (AllocaInstOf (nextAlloca c2 + 7)),
            Alloca (nextAlloca c2 + 8) n9, Store v9 (AllocaInstOf (nextAlloca c2 + 8)),
            Alloca (nextAlloca c2 + 9) n10, Store v10 (AllocaInstOf (nextAlloca c2 + 9))]"
  using assms
  apply -
  apply (drule bindE_Inr, clarify, drule copyToLocal_Inr)+
  apply simp
  done

lemma marshalTaskCPU_arity:
  assumes "marshalTaskCPU f ft F s = Inr r"
  shows "10 < length (fn_argTypes F)"
  using assms unfolding marshalTaskCPU_def
  apply -
  apply (drule bindE_Inr, clarify)
  apply (drule bindE_Inr, clarify, drule nextArg_Inr)+
  apply simp
  done

lemma loadTaskMask_props:
  "\<exists>pre. emitted (fst (loadTaskMask f ft (AddressInfo v) (c, m))) = emitted c @ pre \<and>
     argStores pre = [] \<and>
     nextAlloca (fst (loadTaskMask f ft (AddressInfo v) (c, m))) = nextAlloca c \<and>
     functionMaskValue (fst (loadTaskMask f ft (AddressInfo v) (c, m))) =
           (if isUnmasked ft then functionMaskValue c
            else LoadInstOf (AddressInfo (AddElementOffsetOf (AddressInfo v) (length (args f)))))"
  by (simp add: loadTaskMask_def LoadInst_def SetFunctionMask_def emit_def Let_def)

lemma marshalTaskCPU_unfold:
  assumes "10 < length (fn_argTypes F)"
  shows "marshalTaskCPU f ft F s =
     bindE (Assert (IsISPCExternal ft = False) ''type->IsISPCExternal() == false'') (\<lambda>_.
     bindE (foldE (\<lambda>i. lCopyInTaskParameter i F (AddressInfo (Argument 0)) (args f))
              [0..<length (args f)] s) (\<lambda>s.
     bindE (copyToLocal (threadIndexSym f) ''threadIndex'' (Argument 1)
              (loadTaskMask f ft (AddressInfo (Argument 0)) s)) (\<lambda>s.
     bindE (copyToLocal (threadCountSym f) ''threadCount'' (Argument 2) s) (\<lambda>s.
     bindE (copyToLocal (taskIndexSym f) ''taskIndex'' (Argument 3) s) (\<lambda>s.
     bindE (copyToLocal (taskCountSym f) ''taskCount'' (Argument 4) s) (\<lambda>s.
     bindE (copyToLocal (taskIndexSym0 f) ''taskIndex0'' (Argument 5) s) (\<lambda>s.
     bindE (copyToLocal (taskIndexSym1 f) ''taskIndex1'' (Argument 6) s) (\<lambda>s.
     bindE (copyToLocal (taskIndexSym2 f) ''taskIndex2'' (Argument 7) s) (\<lambda>s.
     bindE (copyToLocal (taskCountSym0 f) ''taskCount0'' (Argument 8) s) (\<lambda>s.
     bindE (copyToLocal (taskCountSym1 f) ''taskCount1'' (Argument 9) s) (\<lambda>s.
     bindE (copyToLocal (taskCountSym2 f) ''taskCount2'' (Argument 10) s) (\<lambda>s.
       Inr (11, s)))))))))))))"
proof -
  have na: "\<And>i. i \<le> 10 \<Longrightarrow> nextArg F i = Inr (Argument i, Suc i)"
    using assms by (simp add: nextArg_ok)
  have nas: "nextArg F 0 = Inr (Argument 0, Suc 0)"
    "nextArg F (Suc 0) = Inr (Argument 1, Suc (Suc 0))"
    "nextArg F (Suc (Suc 0)) = Inr (Argument 2, Suc (Suc (Suc 0)))"
    "nextArg F (Suc (Suc (Suc 0))) = Inr (Argument 3, Suc (Suc (Suc (Suc 0))))"
    "nextArg F (Suc (Suc (Suc (Suc 0)))) = Inr (Argument 4, Suc (Suc (Suc (Suc (Suc 0)))))"
    "nextArg F (Suc (Suc (Suc (Suc (Suc 0))))) =
       Inr (Argument 5, Suc (Suc (Suc (Suc (Suc (Suc 0))))))"
    "nextArg F (Suc (Suc (Suc (Suc (Suc (Suc 0)))))) =
       Inr (Argument 6, Suc (Suc (Suc (Suc (Suc (Suc (Suc 0)))))))"
    "nextArg F (Suc (Suc (Suc (Suc (Suc (Suc (Suc 0))))))) =
       Inr (Argument 7, Suc (Suc (Suc (Suc (Suc (Suc (Suc (Suc 0))))))))"
    "nextArg F (Suc (Suc (Suc (Suc (Suc (Suc (Suc (Suc 0)))))))) =
       Inr (Argument 8, Suc (Suc (Suc (Suc (Suc (Suc (Suc (Suc (Suc 0)))))))))"
    "nextArg F (Suc (Suc (Suc (Suc (Suc (Suc (Suc (Suc (Suc 0))))))))) =
       Inr (Argument 9, Suc (Suc (Suc (Suc (Suc (Suc (Suc (Suc (Suc (Suc 0))))))))))"
    "nextArg F (Suc (Suc (Suc (Suc (Suc (Suc (Suc (Suc (Suc (Suc 0)))))))))) =
       Inr (Argument 10, 11)"
    using na[of 0] na[of 1] na[of 2] na[of 3] na[of 4] na[of 5] na[of 6] na[of 7] na[of 8]
      na[of 9] na[of 10]
    by (simp_all add: eval_nat_numeral)
  show ?thesis
    unfolding marshalTaskCPU_def
    by (simp only: nas bindE_simps prod.case Let_def)
qed

text \<open>
  C3, as amended.  For every task function emitted on a CPU target, the marshalling
  code reads exactly 11 parameters of the generated signature, in the fixed order
  struct-pointer, threadIndex, threadCount, taskIndex, taskCount, taskIndex0-2,
  taskCount0-2: the iterator ends at position 11, the signature has at least 11
  parameters, parameter 0 is the pointer to the packed argument structure (the mask is
  loaded from the member after the declared parameters, unless the function is
  unmasked), and the code ends with the copies of parameters 1 to 10 into new local
  storage named by the ten thread and task symbols in that order; no other formal
  parameter is stored.
\<close>

theorem marshalTaskCPU_reads_eleven_parameters:
  assumes run: "marshalTaskCPU f ft F (c, m) = Inr (argIter, (c', m'))"
  shows "argIter = 11 \<and> 11 \<le> length (fn_argTypes F) \<and>
         functionMaskValue c' =
           (if isUnmasked ft then functionMaskValue c
            else LoadInstOf (AddressInfo (AddElementOffsetOf (AddressInfo (Argument 0))
                                            (length (args f))))) \<and>
         (\<exists>pre slot. emitted c' = emitted c @ pre @ copiesFrom slot 1 taskSymNames \<and>
                     argStores pre = [])"
proof -
  from marshalTaskCPU_arity[OF run] have n: "10 < length (fn_argTypes F)" .
  from run[unfolded marshalTaskCPU_unfold[OF n]] obtain c1 m1 where
    params: "foldE (\<lambda>i. lCopyInTaskParameter i F (AddressInfo (Argument 0)) (args f))
               [0..<length (args f)] (c, m) = Inr (c1, m1)" and
    rest: "bindE (copyToLocal (threadIndexSym f) ''threadIndex'' (Argument 1)
                    (loadTaskMask f ft (AddressInfo (Argument 0)) (c1, m1))) (\<lambda>s.
     bindE (copyToLocal (threadCountSym f) ''threadCount'' (Argument 2) s) (\<lambda>s.
     bindE (copyToLocal (taskIndexSym f) ''taskIndex'' (Argument 3) s) (\<lambda>s.
     bindE (copyToLocal (taskCountSym f) ''taskCount'' (Argument 4) s) (\<lambda>s.
     bindE (copyToLocal (taskIndexSym0 f) ''taskIndex0'' (Argument 5) s) (\<lambda>s.
     bindE (copyToLocal (taskIndexSym1 f) ''taskIndex1'' (Argument 6) s) (\<lambda>s.
     bindE (copyToLocal (taskIndexSym2 f) ''taskIndex2'' (Argument 7) s) (\<lambda>s.
     bindE (copyToLocal (taskCountSym0 f) ''taskCount0'' (Argument 8) s) (\<lambda>s.
     bindE (copyToLocal (taskCountSym1 f) ''taskCount1'' (Argument 9) s) (\<lambda>s.
     bindE (copyToLocal (taskCountSym2 f) ''taskCount2'' (Argument 10) s) (\<lambda>s.
       Inr (11, s))))))))))) = Inr (argIter, (c', m'))"
    by (auto dest!: bindE_Inr simp del: foldE.simps)
  from foldE_lCopyInTaskParameter[OF params] obtain pre1 where
    p1: "emitted c1 = emitted c @ pre1" "argStores pre1 = []"
        "functionMaskValue c1 = functionMaskValue c"
    by blast
  obtain c2 m2 where s2: "loadTaskMask f ft (AddressInfo (Argument 0)) (c1, m1) = (c2, m2)"
    by (metis surj_pair)
  from loadTaskMask_props[of f ft "Argument 0" c1 m1] s2 obtain pre2 where
    p2: "emitted c2 = emitted c1 @ pre2" "argStores pre2 = []"
        "functionMaskValue c2 =
           (if isUnmasked ft then functionMaskValue c1
            else LoadInstOf (AddressInfo (AddElementOffsetOf (AddressInfo (Argument 0))
                                            (length (args f)))))"
    by auto
  from copy_chain[OF rest[unfolded s2]] have
    it: "argIter = 11" and mk: "functionMaskValue c' = functionMaskValue c2" and
    em: "emitted c' = emitted c2 @ copiesFrom (nextAlloca c2) 1 taskSymNames"
    by (simp_all add: taskSymNames_def)
  have "emitted c' = emitted c @ (pre1 @ pre2) @ copiesFrom (nextAlloca c2) 1 taskSymNames"
    using em p1 p2 by simp
  moreover have "argStores (pre1 @ pre2) = []" using p1 p2 by simp
  ultimately have "\<exists>pre slot. emitted c' = emitted c @ pre @ copiesFrom slot 1 taskSymNames \<and>
                     argStores pre = []"
    by blast
  then show ?thesis using it n mk p1 p2 by simp
qed

section \<open>Offsets of kernel arguments\<close>

lemma roundUp_ge: "0 < a \<Longrightarrow> x \<le> roundUp x a"
proof -
  assume a: "0 < a"
  have "x + a - 1 < ((x + a - 1) div a) * a + a"
    using a by (metis div_mult_mod_eq mod_less_divisor add_less_cancel_left)
  then show ?thesis using a by (simp add: roundUp_def)
qed

lemma roundUp_dvd: "a dvd roundUp x a"
  by (simp add: roundUp_def)

lemma roundUp_lt: "0 < a \<Longrightarrow> roundUp x a < x + a"
proof -
  assume a: "0 < a"
  have "((x + a - 1) div a) * a \<le> x + a - 1" by (rule div_times_less_eq_dividend)
  moreover have "x + a - 1 < x + a" using a by simp
  ultimately show ?thesis unfolding roundUp_def by (rule le_less_trans)
qed

lemma unat_ucast_32_64: "unat (ucast (v :: 32 word) :: 64 word) = unat v"
proof -
  have "unat v < 2 ^ 32" using unsigned_less[of v] by simp
  then have "unat v < 2 ^ 64" by simp
  then show ?thesis
    by (simp add: unsigned_ucast_eq take_bit_nat_eq_self_iff)
qed

text \<open>Where the result fits 32 bits, \<^verbatim>\<open>llvm::alignTo\<close> rounds up to the next multiple.\<close>

lemma alignTo_roundUp:
  assumes a: "a \<noteq> 0" and fit: "roundUp (unat v) (unat a) < 2 ^ 32"
  shows "\<exists>r. alignTo v a = Inr r \<and> unat r = roundUp (unat v) (unat a)"
proof -
  let ?V = "unat v" and ?A = "unat a"
  let ?v = "ucast v :: 64 word" and ?a = "ucast a :: 64 word"
  have A0: "0 < ?A" using a by (simp add: unat_gt_0)
  have V: "?V < 2 ^ 32" and A: "?A < 2 ^ 32"
    using unsigned_less[of v] unsigned_less[of a] by simp_all
  have uv: "unat ?v = ?V" and ua: "unat ?a = ?A"
    by (rule unat_ucast_32_64)+
  have "unat ?v + unat ?a < 2 ^ LENGTH(64)"
    using V A by (simp add: uv ua)
  then have add: "unat (?v + ?a) = ?V + ?A"
    by (simp only: unat_add_lem[THEN iffD1] uv ua)
  then have "?v + ?a \<noteq> 0"
    using A0 by (metis add_is_0 less_numeral_extra(3) unat_eq_zero unsigned_0)
  then have "unat (?v + ?a - 1) = unat (?v + ?a) - 1"
    by (rule unat_minus_one)
  then have s1: "unat (?v + ?a - 1) = ?V + ?A - 1"
    by (simp only: add)
  have q: "unat ((?v + ?a - 1) div ?a) = (?V + ?A - 1) div ?A"
    by (simp only: unat_div s1 ua)
  have r64: "unat (((?v + ?a - 1) div ?a) * ?a) = roundUp ?V ?A"
  proof -
    have "unat ((?v + ?a - 1) div ?a) * unat ?a = roundUp ?V ?A"
      by (simp only: q ua roundUp_def)
    moreover have "roundUp ?V ?A < 2 ^ LENGTH(64)" using fit by simp
    ultimately show ?thesis
      by (metis unat_mult_lem)
  qed
  have "unat (ucast (((?v + ?a - 1) div ?a) * ?a) :: 32 word) = roundUp ?V ?A"
    using fit by (simp only: unsigned_ucast_eq r64) (simp add: take_bit_nat_eq_self_iff)
  then show ?thesis
    using a by (simp add: alignTo_def)
qed

lemma and_grf:
  assumes "k < 32"
  shows "unat ((x :: 32 word) AND (2 ^ k - 1)) = unat x mod 2 ^ k"
proof -
  have "x AND (2 ^ k - 1) = take_bit k x"
    by (simp only: take_bit_eq_mask mask_eq_decr_exp)
  then have "unat (x AND (2 ^ k - 1)) = take_bit k (unat x)"
    by (simp only: unsigned_take_bit_eq)
  then show ?thesis
    by (simp only: take_bit_eq_mod)
qed

lemma unat_exp32: "k < 32 \<Longrightarrow> unat (2 ^ k :: 32 word) = 2 ^ k"
proof -
  assume k: "k < 32"
  have w: "(2 ^ k :: 32 word) = of_nat (2 ^ k)" by simp
  have "(2::nat) ^ k < 2 ^ LENGTH(32)"
    by (rule power_strict_increasing) (use k in simp_all)
  then have "(2::nat) ^ k mod 2 ^ LENGTH(32) = 2 ^ k" by (rule mod_less)
  then show ?thesis by (simp only: w unat_of_nat)
qed

text \<open>One argument: the machine arithmetic computes the layout of the specification.\<close>

lemma kernelArgOffset_refines:
  assumes k: "k < 32"
      and sb: "getScalarSizeInBits ty < 2 ^ 32"
      and pb: "getPrimitiveSizeInBits ty < 2 ^ 64"
      and fit: "snd (placeArg_spec (2 ^ k) ty (unat off)) + 2 ^ k < 2 ^ 32"
  shows "\<exists>at next. kernelArgOffset (2 ^ k) ty off = Inr (at, next) \<and>
           unat at = fst (placeArg_spec (2 ^ k) ty (unat off)) \<and>
           unat next = snd (placeArg_spec (2 ^ k) ty (unat off))"
proof -
  define grf :: nat where "grf = 2 ^ k"
  define scalar where "scalar = getScalarSizeInBits ty div 8"
  define aligned where "aligned = (if scalar = 0 then unat off else roundUp (unat off) scalar)"
  define size where "size = (if isVectorTy ty then getPrimitiveSizeInBits ty div 8 else scalar)"
  define placed where "placed = (if isVectorTy ty \<and> grf < aligned mod grf + size
                    then roundUp aligned grf else aligned)"
  have spec: "placeArg_spec (2 ^ k) ty (unat off) = (placed, placed + size)"
    by (simp add: placeArg_spec_def Let_def placed_def size_def aligned_def scalar_def grf_def)
  have grf0: "0 < grf" by (simp add: grf_def)
  have ugrf: "unat (2 ^ k :: 32 word) = grf" using k by (simp add: unat_exp32 grf_def)
  have wgrf0: "(2 ^ k :: 32 word) \<noteq> 0" using k by simp
  from fit spec have bound: "placed + size + grf < 2 ^ 32" by (simp add: grf_def)
  have al_pl: "aligned \<le> placed"
    using roundUp_ge[OF grf0, of aligned] by (simp add: placed_def)
  define bytes :: "32 word" where "bytes = word_of_nat (getScalarSizeInBits ty) div 8"
  have ubytes: "unat bytes = scalar"
  proof -
    have "unat (word_of_nat (getScalarSizeInBits ty) :: 32 word) = getScalarSizeInBits ty"
      using sb by (simp add: unat_of_nat)
    then show ?thesis by (simp add: bytes_def unat_div scalar_def)
  qed
  have bytes0: "bytes = 0 \<longleftrightarrow> scalar = 0"
    using ubytes by (metis unat_eq_zero)
  have "\<exists>o1. (if bytes \<noteq> 0 then alignTo off bytes else Inr off) = Inr o1 \<and> unat o1 = aligned"
  proof (cases "scalar = 0")
    case True
    then show ?thesis using bytes0 by (simp add: aligned_def)
  next
    case False
    then have b: "bytes \<noteq> 0" using bytes0 by simp
    have "roundUp (unat off) (unat bytes) < 2 ^ 32"
      using False al_pl bound by (simp add: ubytes aligned_def)
    from alignTo_roundUp[OF b this] show ?thesis
      using b False by (simp add: ubytes aligned_def)
  qed
  then obtain o1 where o1: "(if bytes \<noteq> 0 then alignTo off bytes else Inr off) = Inr o1"
    and uo1: "unat o1 = aligned" by blast
  show ?thesis
  proof (cases "isVectorTy ty")
    case False
    then have sz: "size = scalar" by (simp add: size_def)
    have pl: "placed = aligned" using False by (simp add: placed_def)
    have "unat o1 + unat bytes < 2 ^ LENGTH(32)"
      using bound by (simp add: uo1 ubytes pl sz)
    then have "unat (o1 + bytes) = aligned + scalar"
      by (simp only: unat_add_lem[THEN iffD1] uo1 ubytes)
    then show ?thesis
      using False o1 uo1
      by (simp add: kernelArgOffset_def Let_def bytes_def[symmetric] spec pl sz)
  next
    case True
    then have sz: "size = getPrimitiveSizeInBits ty div 8" by (simp add: size_def)
    define bytes2 :: "32 word" where
      "bytes2 = ucast ((word_of_nat (getPrimitiveSizeInBits ty) :: 64 word) div 8)"
    have ubytes2: "unat bytes2 = size"
    proof -
      have "unat (word_of_nat (getPrimitiveSizeInBits ty) :: 64 word) = getPrimitiveSizeInBits ty"
        using pb by (simp add: unat_of_nat)
      then have "unat ((word_of_nat (getPrimitiveSizeInBits ty) :: 64 word) div 8) = size"
        by (simp add: unat_div sz)
      moreover have "size < 2 ^ 32" using bound by simp
      ultimately show ?thesis
        by (simp add: bytes2_def unsigned_ucast_eq take_bit_nat_eq_self_iff)
    qed
    have uand: "unat (o1 AND (2 ^ k - 1)) = aligned mod grf"
      using and_grf[OF k, of o1] by (simp add: uo1 grf_def)
    have "aligned mod grf < grf" using grf0 by simp
    then have "unat (o1 AND (2 ^ k - 1)) + unat bytes2 < 2 ^ LENGTH(32)"
      using bound by (simp add: uand ubytes2)
    then have usum: "unat ((o1 AND (2 ^ k - 1)) + bytes2) = aligned mod grf + size"
      by (simp only: unat_add_lem[THEN iffD1] uand ubytes2)
    have cond: "((o1 AND (2 ^ k - 1)) + bytes2 > 2 ^ k) \<longleftrightarrow> grf < aligned mod grf + size"
      by (simp add: word_less_nat_alt usum ugrf)
    have "\<exists>o2. (if (o1 AND (2 ^ k - 1)) + bytes2 > 2 ^ k
                 then alignTo o1 (2 ^ k) else Inr o1) = Inr o2 \<and> unat o2 = placed"
    proof (cases "grf < aligned mod grf + size")
      case False
      then show ?thesis using cond uo1 by (simp add: placed_def)
    next
      case c: True
      then have pl: "placed = roundUp aligned grf" using True by (simp add: placed_def)
      have "roundUp (unat o1) (unat (2 ^ k :: 32 word)) < 2 ^ 32"
        using bound by (simp add: uo1 ugrf pl[symmetric])
      from alignTo_roundUp[OF wgrf0 this] show ?thesis
        using cond c by (simp add: uo1 ugrf pl)
    qed
    then obtain o2 where
      o2: "(if (o1 AND (2 ^ k - 1)) + bytes2 > 2 ^ k
            then alignTo o1 (2 ^ k) else Inr o1) = Inr o2"
      and uo2: "unat o2 = placed" by blast
    have "unat o2 + unat bytes2 < 2 ^ LENGTH(32)"
      using bound by (simp add: uo2 ubytes2)
    then have "unat (o2 + bytes2) = placed + size"
      by (simp only: unat_add_lem[THEN iffD1] uo2 ubytes2)
    then show ?thesis
      using True o1 o2 uo2
      by (simp add: kernelArgOffset_def Let_def bytes_def[symmetric] bytes2_def[symmetric] spec)
  qed
qed

lemma kernelArg_fold:
  assumes k: "k < 32" and grf: "getXeGrfSize g = 2 ^ k"
      and valid: "\<forall>i \<in> set is. args f ! i \<noteq> None \<and> i < length (fn_argTypes F)"
      and fits: "fits32 (2 ^ k) (unat (offset acc))
                   (map (\<lambda>i. LLVMType L (type (symbols m (the (args f ! i))))) is)"
  shows "\<exists>acc'. foldE (kernelArg g L f F m) is acc = Inr acc' \<and>
           map unat (argOffsets acc') =
             map unat (argOffsets acc) @
             placeArgs_spec (2 ^ k) (unat (offset acc))
               (map (\<lambda>i. LLVMType L (type (symbols m (the (args f ! i))))) is)"
  using valid fits
proof (induction "is" arbitrary: acc)
  case Nil
  then show ?case by simp
next
  case (Cons i "is")
  let ?ty = "LLVMType L (type (symbols m (the (args f ! i))))"
  from Cons.prems(1) obtain p where p: "args f ! i = Some p" and i: "i < length (fn_argTypes F)"
    by auto
  from Cons.prems(2) have
    sb: "getScalarSizeInBits ?ty < 2 ^ 32" and pb: "getPrimitiveSizeInBits ?ty < 2 ^ 64" and
    fit: "snd (placeArg_spec (2 ^ k) ?ty (unat (offset acc))) + 2 ^ k < 2 ^ 32" and
    rest: "fits32 (2 ^ k) (snd (placeArg_spec (2 ^ k) ?ty (unat (offset acc))))
             (map (\<lambda>i. LLVMType L (type (symbols m (the (args f ! i))))) is)"
    by simp_all
  from kernelArgOffset_refines[OF k sb pb fit] obtain at nxt where
    step: "kernelArgOffset (2 ^ k) ?ty (offset acc) = Inr (at, nxt)" and
    uat: "unat at = fst (placeArg_spec (2 ^ k) ?ty (unat (offset acc)))" and
    unx: "unat nxt = snd (placeArg_spec (2 ^ k) ?ty (unat (offset acc)))"
    by blast
  from p i step grf obtain acc1 where
    one: "kernelArg g L f F m i acc = Inr acc1" and
    o1: "offset acc1 = nxt" "argOffsets acc1 = argOffsets acc @ [at]"
    by (simp add: kernelArg_def derefSym_def getArgType_def Let_def)
  from Cons.prems(1) have v': "\<forall>i \<in> set is. args f ! i \<noteq> None \<and> i < length (fn_argTypes F)"
    by simp
  from rest have r': "fits32 (2 ^ k) (unat (offset acc1))
             (map (\<lambda>i. LLVMType L (type (symbols m (the (args f ! i))))) is)"
    by (simp add: o1 unx)
  from Cons.IH[OF v' r'] obtain acc' where
    f': "foldE (kernelArg g L f F m) is acc1 = Inr acc'" and
    offs: "map unat (argOffsets acc') = map unat (argOffsets acc1) @
             placeArgs_spec (2 ^ k) (unat (offset acc1))
               (map (\<lambda>i. LLVMType L (type (symbols m (the (args f ! i))))) is)"
    by blast
  show ?case
    apply (rule exI[of _ acc'])
    using one f' offs by (simp add: o1 uat unx p)
qed

text \<open>
  C9.  In the emission of the metadata of an accelerator kernel, the byte offsets of
  the arguments start at the fixed base 32; the offset of each argument is first
  aligned to its scalar size, and for an argument of a vector type whose offset plus
  size would cross a boundary of the register-file (GRF) granule the offset is padded
  up to the next granule boundary, before the size of the argument is accumulated.
  This holds where the granule is a power of two, every parameter has a symbol, the
  function has a formal argument for every parameter, and no quantity leaves the range
  of the machine integers.
\<close>

theorem kernelArgs_offsets:
  assumes grf: "getXeGrfSize g = 2 ^ k" and k: "k < 32"
      and named: "list_all (\<lambda>a. a \<noteq> None) (args f)"
      and arity: "length (args f) \<le> length (fn_argTypes F)"
      and fits: "fits32 (2 ^ k) 32 (kernelArgTypes L f m)"
  shows "\<exists>acc. kernelArgs g L f F m = Inr acc \<and>
           map unat (argOffsets acc) = placeArgs_spec (2 ^ k) 32 (kernelArgTypes L f m)"
proof -
  let ?acc0 = "\<lparr>argKinds = [], argInOutKinds = [], argTypeDescs = [], argOffsets = [],
                offset = 32 :: 32 word\<rparr>"
  have tys: "map (\<lambda>i. LLVMType L (type (symbols m (the (args f ! i))))) [0..<length (args f)]
               = kernelArgTypes L f m"
    unfolding kernelArgTypes_def by (rule nth_equalityI) simp_all
  have valid: "\<forall>i \<in> set [0..<length (args f)].
                 args f ! i \<noteq> None \<and> i < length (fn_argTypes F)"
    using named arity by (auto simp: list_all_length)
  have fits0: "fits32 (2 ^ k) (unat (offset ?acc0))
                 (map (\<lambda>i. LLVMType L (type (symbols m (the (args f ! i)))))
                    [0..<length (args f)])"
    using fits by (simp add: tys)
  from kernelArg_fold[OF k grf valid fits0] show ?thesis
    by (simp add: kernelArgs_def tys)
qed

section \<open>GenerateIR\<close>

text \<open>
  C8.  GenerateIR on a function whose target representation already has a body
  reports exactly one error and returns: the error counter goes up by one, one
  diagnostic is added, nothing is emitted and nothing else of the module changes, so
  the representation emitted before is as it was; the call returns normally, so the
  compilation continues.
\<close>

theorem GenerateIR_redefinition:
  assumes "sym f = Some sp"
      and "llvmFunction (symbols m sp) = Some fn"
      and "fn_body (functionHeap m fn) \<noteq> []"
  shows "GenerateIR g L f m =
           Inr (m\<lparr>errorCount := Suc (errorCount m),
                  diagnostics := diagnostics m @
                    [''Ignoring redefinition of function '' @ name (symbols m sp)]\<rparr>)"
  using assms by (simp add: GenerateIR_def GenerateIR_internal_def Error_def)


text \<open>What the updates of a function object leave alone.\<close>

lemma updFunction_frame [simp]:
  "symbols (updFunction a u m) = symbols m"
  "errorCount (updFunction a u m) = errorCount m"
  "diagnostics (updFunction a u m) = diagnostics m"
  "moduleFunctions (updFunction a u m) = moduleFunctions m"
  "nextFunction (updFunction a u m) = nextFunction m"
  "genxKernels (updFunction a u m) = genxKernels m"
  "functionHeap (updFunction a u m) b = (if b = a then u (functionHeap m a) else functionHeap m b)"
  by (simp_all add: updFunction_def)

lemma addFnAttr_updFunction:
  "addFnAttr a k v m = updFunction a (\<lambda>F. F\<lparr>fn_attrs := fn_attrs F @ [(k, v)]\<rparr>) m"
  by (simp add: addFnAttr_def updFunction_def)

lemma addFnAttr_frame [simp]:
  "symbols (addFnAttr a k v m) = symbols m"
  "errorCount (addFnAttr a k v m) = errorCount m"
  "diagnostics (addFnAttr a k v m) = diagnostics m"
  "moduleFunctions (addFnAttr a k v m) = moduleFunctions m"
  "nextFunction (addFnAttr a k v m) = nextFunction m"
  "genxKernels (addFnAttr a k v m) = genxKernels m"
  "fn_name (functionHeap (addFnAttr a k v m) b) = fn_name (functionHeap m b)"
  "fn_argTypes (functionHeap (addFnAttr a k v m) b) = fn_argTypes (functionHeap m b)"
  "fn_body (functionHeap (addFnAttr a k v m) b) = fn_body (functionHeap m b)"
  by (simp_all add: addFnAttr_updFunction)

lemma fold_addFnAttr_frame:
  "symbols (fold (\<lambda>(k, v). addFnAttr a k v) kvs m) = symbols m \<and>
   errorCount (fold (\<lambda>(k, v). addFnAttr a k v) kvs m) = errorCount m \<and>
   diagnostics (fold (\<lambda>(k, v). addFnAttr a k v) kvs m) = diagnostics m \<and>
   moduleFunctions (fold (\<lambda>(k, v). addFnAttr a k v) kvs m) = moduleFunctions m \<and>
   nextFunction (fold (\<lambda>(k, v). addFnAttr a k v) kvs m) = nextFunction m \<and>
   genxKernels (fold (\<lambda>(k, v). addFnAttr a k v) kvs m) = genxKernels m \<and>
   fn_name (functionHeap (fold (\<lambda>(k, v). addFnAttr a k v) kvs m) b) =
     fn_name (functionHeap m b) \<and>
   fn_argTypes (functionHeap (fold (\<lambda>(k, v). addFnAttr a k v) kvs m) b) =
     fn_argTypes (functionHeap m b) \<and>
   fn_body (functionHeap (fold (\<lambda>(k, v). addFnAttr a k v) kvs m) b) =
     fn_body (functionHeap m b)"
  by (induction kvs arbitrary: m) (simp_all add: split_def)

lemma markFuncWithTargetAttr_frame [simp]:
  "symbols (markFuncWithTargetAttr g a m) = symbols m"
  "errorCount (markFuncWithTargetAttr g a m) = errorCount m"
  "diagnostics (markFuncWithTargetAttr g a m) = diagnostics m"
  "moduleFunctions (markFuncWithTargetAttr g a m) = moduleFunctions m"
  "nextFunction (markFuncWithTargetAttr g a m) = nextFunction m"
  "genxKernels (markFuncWithTargetAttr g a m) = genxKernels m"
  "fn_name (functionHeap (markFuncWithTargetAttr g a m) b) = fn_name (functionHeap m b)"
  "fn_argTypes (functionHeap (markFuncWithTargetAttr g a m) b) = fn_argTypes (functionHeap m b)"
  "fn_body (functionHeap (markFuncWithTargetAttr g a m) b) = fn_body (functionHeap m b)"
  using fold_addFnAttr_frame[of a "targetFnAttrs g" m b]
  by (simp_all add: markFuncWithTargetAttr_def)

lemma copyNoAlias_frame [simp]:
  "symbols (copyNoAlias a b m) = symbols m"
  "errorCount (copyNoAlias a b m) = errorCount m"
  "diagnostics (copyNoAlias a b m) = diagnostics m"
  "moduleFunctions (copyNoAlias a b m) = moduleFunctions m"
  "fn_name (functionHeap (copyNoAlias a b m) x) = fn_name (functionHeap m x)"
  "fn_argTypes (functionHeap (copyNoAlias a b m) x) = fn_argTypes (functionHeap m x)"
  by (simp_all add: copyNoAlias_def Let_def)




lemma decls_frame [simp]:
  "decls (setStorageInfo p a m) = decls m"
  "decls (addFnAttr fn k v m) = decls m"
  "decls (markFuncWithTargetAttr g fn m) = decls m"
  "decls (m\<lparr>errorCount := e\<rparr>) = decls m"
  "decls (m\<lparr>genxKernels := ks\<rparr>) = decls m"
  "decls (m\<lparr>symbols := (symbols m)(p := (symbols m p)\<lparr>storageInfo := x\<rparr>)\<rparr>) = decls m"
  "decls (m\<lparr>symbols := (symbols m)(p := (symbols m p)\<lparr>pos := y\<rparr>)\<rparr>) = decls m"
  by (simp_all add: decls_def setStorageInfo_def fun_eq_iff)











lemma InitializeLabelMap_emitted [simp]:
  "emitted (InitializeLabelMap body c) = emitted c"
  using InitializeLabelMap_props[of body c] by blast


















lemma copyNoAlias_body [simp]:
  "fn_body (functionHeap (copyNoAlias a b m) x) = fn_body (functionHeap m x)"
  by (simp add: copyNoAlias_def Let_def)



section \<open>Instantiation of symbols\<close>

text \<open>
  C10.  InstantiateSymbol called with a null symbol pointer returns null and leaves
  the instantiation, its memoisation map included, as it was: no entry is recorded.
\<close>

theorem InstantiateSymbol_null: "InstantiateSymbol I None st = (None, st)"
  by (simp add: InstantiateSymbol_def)

lemma InstantiateSymbol_memo:
  assumes "symMap (fst st) p = Some q"
  shows "InstantiateSymbol I (Some p) st = (Some q, st)"
  using assms by (simp add: InstantiateSymbol_def)

lemma InstantiateSymbol_records:
  assumes un: "symMap (fst st) p = None" and keep: "keepsUnmapped I p"
  shows "\<exists>q. fst (InstantiateSymbol I (Some p) st) = Some q \<and>
              symMap (fst (snd (InstantiateSymbol I (Some p) st))) p = Some q"
proof -
  obtain instType st1 where rd: "ResolveDependence I (type (heap (snd st) p)) st = (instType, st1)"
    by (cases "ResolveDependence I (type (heap (snd st) p)) st")
  obtain ti1 hs1 where st1: "st1 = (ti1, hs1)" by (cases st1)
  from keep un rd st1 have u1: "symMap ti1 p = None"
    unfolding keepsUnmapped_def by (metis fst_conv snd_conv)
  define hs2 where "hs2 = hs1\<lparr>heap := (heap hs1)
                               (nextSymbol hs1 := Symbol_ctor (name (heap hs1 p)) (pos (heap hs1 p))
                                             instType (storageClass (heap hs1 p))),
                            nextSymbol := Suc (nextSymbol hs1)\<rparr>"
  show ?thesis
  proof (cases "constValue (heap hs2 p)")
    case None
    then show ?thesis
      using un rd st1 u1
      by (simp add: InstantiateSymbol_def Let_def hs2_def)
  next
    case (Some e)
    obtain e' ti3 hs3 where ins: "Instantiate I e (ti1, hs2) = (e', (ti3, hs3))"
      by (metis prod.exhaust)
    from keep u1 ins have u3: "symMap ti3 p = None"
      unfolding keepsUnmapped_def by (metis fst_conv snd_conv)
    show ?thesis
      using un rd st1 Some ins u3
      by (simp add: InstantiateSymbol_def Let_def hs2_def)
  qed
qed

text \<open>
  When the symbol has no entry, the symbol returned is the one that \<^verbatim>\<open>new Symbol\<close>
  gave after the type was resolved, and its parent function is null.
\<close>

lemma InstantiateSymbol_new:
  assumes un: "symMap (fst st) p = None"
  shows "fst (InstantiateSymbol I (Some p) st) =
           Some (nextSymbol (snd (snd (ResolveDependence I (type (heap (snd st) p)) st)))) \<and>
         parentFunction (heap (snd (snd (InstantiateSymbol I (Some p) st)))
           (nextSymbol (snd (snd (ResolveDependence I (type (heap (snd st) p)) st))))) = None"
  using un
  by (simp add: InstantiateSymbol_def Let_def split_def split: option.splits)

text \<open>
  C7.  For every TemplateInstantiation and every original symbol, calling
  InstantiateSymbol twice with the same original symbol returns the identical
  instantiated symbol.  The first call returns a symbol that is not null and leaves it
  recorded in the memoisation map under the original symbol: the symbol that the map
  held already, with nothing changed, or else the symbol that the call has just
  constructed, which has no parent function.  The second call returns that same symbol
  and changes nothing: it is the memoised result of the first.  The resolution of the
  symbol's type and the instantiation of its constant value are taken not to record
  an instantiation of the symbol themselves.
\<close>

theorem InstantiateSymbol_memoized:
  assumes "keepsUnmapped I p"
  shows "\<exists>q. fst (InstantiateSymbol I (Some p) st) = Some q \<and>
             symMap (fst (snd (InstantiateSymbol I (Some p) st))) p = Some q \<and>
             (case symMap (fst st) p of
                Some q0 \<Rightarrow> q = q0 \<and> snd (InstantiateSymbol I (Some p) st) = st
              | None \<Rightarrow>
                  q = nextSymbol (snd (snd (ResolveDependence I (type (heap (snd st) p)) st))) \<and>
                  parentFunction (heap (snd (snd (InstantiateSymbol I (Some p) st))) q) = None) \<and>
             InstantiateSymbol I (Some p) (snd (InstantiateSymbol I (Some p) st)) =
               (Some q, snd (InstantiateSymbol I (Some p) st))"
proof (cases "symMap (fst st) p")
  case None
  from InstantiateSymbol_records[OF None assms] obtain q where
    q: "fst (InstantiateSymbol I (Some p) st) = Some q"
       "symMap (fst (snd (InstantiateSymbol I (Some p) st))) p = Some q"
    by blast
  from InstantiateSymbol_new[OF None, of I] q(1)
  have "q = nextSymbol (snd (snd (ResolveDependence I (type (heap (snd st) p)) st)))"
       "parentFunction (heap (snd (snd (InstantiateSymbol I (Some p) st))) q) = None"
    by simp_all
  with q None show ?thesis
    by (intro exI[of _ q]) (simp add: InstantiateSymbol_memo)
next
  case (Some q)
  then show ?thesis by (simp add: InstantiateSymbol_memo)
qed

section \<open>The theorems at the example inputs\<close>

lemmas example_defs =
  exInt_def exVaryingInt_def exTaskType_def exExportType_def exKernelType_def
  exSymbolList_def exSymbols_def exTable_def exPasses_def exBody_def exTask_def exExport_def
  exKernel_def exMaskType_def exDeclared_def exFunctionHeap_def exModule_def exGlobals_def
  exLLVMType_def exCollaborators_def Symbol_ctor_def

theorem checkMask_iff_spec_witness:
  "checkMask_spec exGlobals exTaskType (exFunctionHeap 50) 0 \<and>
   checkMask exGlobals exTaskType (exFunctionHeap 50) 0 \<and>
   \<not> checkMask_spec exGlobals exExportType (exFunctionHeap 51) 0 \<and>
   \<not> checkMask exGlobals exExportType (exFunctionHeap 51) 0"
proof -
  have a: "checkMask_spec exGlobals exTaskType (exFunctionHeap 50) 0"
    by (simp add: checkMask_spec_def example_defs)
  have b: "\<not> checkMask_spec exGlobals exExportType (exFunctionHeap 51) 0"
    by (simp add: checkMask_spec_def example_defs)
  from a b show ?thesis
    by (simp only: checkMask_iff_spec[of exGlobals exTaskType "exFunctionHeap 50" 0]
                   checkMask_iff_spec[of exGlobals exExportType "exFunctionHeap 51" 0] simp_thms)
qed

theorem emitBody_mask_restored_labels_separate_witness:
  "checkMask exGlobals exTaskType (functionHeap exModule 50) (EstimateCost exCollaborators exBody) \<and>
   (\<exists>allOn someOn.
     bodyCopies (emitted (fst (emitBody exGlobals exCollaborators exTaskType 50 exBody
                                 (FunctionEmitContext_ctor, exModule)))) = [allOn, someOn] \<and>
     entryMask someOn = GetFunctionMask FunctionEmitContext_ctor \<and>
     entryMask allOn = LLVMMaskAllOn \<and>
     entryBlock allOn \<noteq> entryBlock someOn \<and>
     set (map fst (entryLabels allOn)) = {''again''} \<and>
     set (map fst (entryLabels someOn)) = {''again''} \<and>
     distinct (map snd (entryLabels allOn) @ map snd (entryLabels someOn)))"
proof -
  have h: "checkMask exGlobals exTaskType (functionHeap exModule 50)
             (EstimateCost exCollaborators exBody)"
    by (simp add: checkMask_def example_defs hasFnAttr_def)
  have l: "set (labelsOf exBody) = {''again''}"
    by (simp add: exBody_def)
  have e: "bodyCopies (emitted FunctionEmitContext_ctor) = []"
    by (simp add: FunctionEmitContext_ctor_def)
  have d: "\<not> disableMaskAllOnOptimizations exGlobals"
    by (simp add: exGlobals_def)
  from emitBody_mask_restored_labels_separate[OF h, of FunctionEmitContext_ctor]
  show ?thesis
    using h unfolding l e using d by simp
qed

lemma exLookups:
  "LookupVariable exSymbols exTable ''__mask'' = Some 2"
  "LookupVariable exSymbols exTable ''a'' = Some 3"
  "LookupVariable exSymbols exTable ''r'' = Some 4"
  "LookupVariable exSymbols exTable ''threadIndex'' = Some 10"
  "LookupVariable exSymbols exTable ''threadCount'' = Some 11"
  "LookupVariable exSymbols exTable ''taskIndex'' = Some 12"
  "LookupVariable exSymbols exTable ''taskCount'' = Some 13"
  "LookupVariable exSymbols exTable ''taskIndex0'' = Some 14"
  "LookupVariable exSymbols exTable ''taskIndex1'' = Some 15"
  "LookupVariable exSymbols exTable ''taskIndex2'' = Some 16"
  "LookupVariable exSymbols exTable ''taskCount0'' = Some 17"
  "LookupVariable exSymbols exTable ''taskCount1'' = Some 18"
  "LookupVariable exSymbols exTable ''taskCount2'' = Some 19"
  by (simp_all add: LookupVariable_def example_defs)

lemma exTypes:
  "CastFunctionType (type (exSymbols 8)) = Some exTaskType"
  "CastFunctionType (type (exSymbols 5)) = Some exExportType"
  "CastFunctionType (type (exSymbols 7)) = Some exKernelType"
  by (simp_all add: exSymbols_def exSymbolList_def Symbol_ctor_def)

lemma exTask_ctor:
  "\<exists>f h'. Function_ctor exPasses exTable 100 (Some 8) (Some exBody) exSymbols = Inr (f, h')"
proof -
  have p: "\<exists>h'. bindParams exTable 100 (params exTaskType) [] exSymbols
                   = Inr ([Some 3, Some 4], h')"
    by (simp add: exTaskType_def exLookups Let_def)
  then obtain h' where bp: "bindParams exTable 100 (params exTaskType) [] exSymbols
                   = Inr ([Some 3, Some 4], h')" by blast
  from bindParams_result[OF bp]
  have h': "h' = (\<lambda>q. if q \<in> boundNonRef exSymbols exTable (params exTaskType)
                       then (exSymbols q)\<lparr>parentFunction := Some 100\<rparr> else exSymbols q)"
    by simp
  have names: "\<And>q. name (h' q) = name (exSymbols q)"
    by (simp add: h')
  have lk: "\<And>n. LookupVariable h' exTable n = LookupVariable exSymbols exTable n"
    by (simp add: LookupVariable_def names)
  have "\<exists>f. bindTaskSymbols h' exTable exTaskType
              \<lparr>sym = Some 8, code = Some exBody, maskSymbol = Some 2, args = [Some 3, Some 4],
               threadIndexSym = None, threadCountSym = None,
               taskIndexSym = None, taskCountSym = None,
               taskIndexSym0 = None, taskIndexSym1 = None, taskIndexSym2 = None,
               taskCountSym0 = None, taskCountSym1 = None, taskCountSym2 = None\<rparr> = Inr f"
    by (simp add: bindTaskSymbols_def lookupAsserted_def lk exLookups exTaskType_def)
  then show ?thesis
    using bp by (auto simp: Function_ctor_def exLookups exTypes)
qed

lemma exExport_ctor:
  "\<exists>f h'. Function_ctor exPasses exTable 101 (Some 5) (Some exBody) exSymbols = Inr (f, h')"
  by (simp add: Function_ctor_def exLookups exTypes exExportType_def Let_def
        bindTaskSymbols_def)

theorem Function_ctor_task_symbols_witness:
  "(\<exists>f h'. Function_ctor exPasses exTable 100 (Some 8) (Some exBody) exSymbols = Inr (f, h') \<and>
            isTask exTaskType \<and> list_all (\<lambda>p. p \<noteq> None) (taskSyms f)) \<and>
   (\<exists>f h'. Function_ctor exPasses exTable 101 (Some 5) (Some exBody) exSymbols = Inr (f, h') \<and>
            \<not> isTask exExportType \<and> list_all (\<lambda>p. p = None) (taskSyms f))"
proof -
  from exTask_ctor obtain f h' where
    r1: "Function_ctor exPasses exTable 100 (Some 8) (Some exBody) exSymbols = Inr (f, h')"
    by blast
  from exExport_ctor obtain f2 h2 where
    r2: "Function_ctor exPasses exTable 101 (Some 5) (Some exBody) exSymbols = Inr (f2, h2)"
    by blast
  have t1: "isTask exTaskType" and t2: "\<not> isTask exExportType"
    by (simp_all add: exTaskType_def exExportType_def)
  from Function_ctor_task_symbols[OF r1 exTypes(1)] t1
  have a: "list_all (\<lambda>p. p \<noteq> None) (taskSyms f)" by metis
  from Function_ctor_task_symbols[OF r2 exTypes(2)] t2
  have b: "list_all (\<lambda>p. p = None) (taskSyms f2)" by metis
  from r1 r2 t1 t2 a b show ?thesis by blast
qed

theorem Function_ctor_parameters_witness:
  "\<exists>f h'. Function_ctor exPasses exTable 100 (Some 8) (Some exBody) exSymbols = Inr (f, h') \<and>
          CastFunctionType (type (exSymbols 8)) = Some exTaskType \<and>
          args f = [Some 3, Some 4] \<and>
          parentFunction (h' 3) = Some 100 \<and>
          parentFunction (h' 4) = None"
proof -
  from exTask_ctor obtain f h' where
    r1: "Function_ctor exPasses exTable 100 (Some 8) (Some exBody) exSymbols = Inr (f, h')"
    by blast
  have n: "GetNumParameters exTaskType = 2"
    by (simp add: GetNumParameters_def exTaskType_def)
  have alone: "(\<exists>j < 2. fst (params exTaskType ! j) = fst (params exTaskType ! 1) \<and>
                      CastReferenceType (snd (params exTaskType ! j)) = None) = False"
    by (auto simp: exTaskType_def exInt_def dest!: less_2_cases)
  from Function_ctor_parameters[OF r1 exTypes(1)]
  have len: "length (args f) = 2" and
    each: "\<And>i. i < 2 \<Longrightarrow>
            args f ! i = LookupVariable exSymbols exTable (fst (params exTaskType ! i)) \<and>
            (case args f ! i of
               None \<Rightarrow> True
             | Some p \<Rightarrow>
                 if CastReferenceType (snd (params exTaskType ! i)) = None
                 then parentFunction (h' p) = Some 100
                 else if (\<exists>j < 2.
                            fst (params exTaskType ! j) = fst (params exTaskType ! i) \<and>
                            CastReferenceType (snd (params exTaskType ! j)) = None)
                      then parentFunction (h' p) = Some 100
                      else parentFunction (h' p) = parentFunction (exSymbols p))"
    unfolding n by blast+
  from each[of 0] have a0: "args f ! 0 = Some 3" "parentFunction (h' 3) = Some 100"
    by (auto simp: exTaskType_def exInt_def exLookups)
  have lt: "(1::nat) < 2" by simp
  note e1 = each[OF lt]
  have r1n: "fst (params exTaskType ! 1) = ''r''"
    by (simp add: exTaskType_def)
  have a1: "args f ! 1 = Some 4"
    using e1[THEN conjunct1] unfolding r1n by (simp only: exLookups)
  have ref1: "(CastReferenceType (snd (params exTaskType ! 1)) = None) = False"
    by (simp add: exTaskType_def)
  have "parentFunction (h' 4) = parentFunction (exSymbols 4)"
    using e1[THEN conjunct2] by (simp only: a1 option.case ref1 alone if_False)
  then have p4: "parentFunction (h' 4) = None"
    by (simp add: exSymbols_def exSymbolList_def Symbol_ctor_def)
  have "args f = [Some 3, Some 4]"
    using len a0(1) a1 by (intro nth_equalityI) (auto dest!: less_2_cases)
  with r1 exTypes(1) a0 p4 show ?thesis by blast
qed

text \<open>
  C6, as the claim states it, fails: the function \<open>dup\<close> has the parameters
  \<open>(float &a, int a)\<close>; both names resolve to the symbol at address 3, and after the
  construction the symbol of the parameter at position 0, which is of a reference
  type, has the Function under construction (at address 40) as its parent function,
  which it had not before.
\<close>

theorem reference_parameter_receives_parent:
  "\<not> isl (Function_ctor exPasses exTable 40 (Some 9) None exDupSymbols) \<and>
   CastFunctionType (type (exDupSymbols 9)) = Some exDupType \<and>
   GetNumParameters exDupType = 2 \<and>
   CastReferenceType (snd (params exDupType ! 0)) \<noteq> None \<and>
   args (fst (projr (Function_ctor exPasses exTable 40 (Some 9) None exDupSymbols))) ! 0 = Some 3 \<and>
   parentFunction (exDupSymbols 3) = None \<and>
   parentFunction (snd (projr (Function_ctor exPasses exTable 40 (Some 9) None exDupSymbols)) 3)
     = Some 40"
proof -
  have names: "\<And>q. q \<in> set exTable \<Longrightarrow> name (exDupSymbols q) = name (exSymbols q)"
    by (auto simp: exDupSymbols_def exTable_def)
  have lk: "\<And>n. LookupVariable exDupSymbols exTable n = LookupVariable exSymbols exTable n"
    unfolding LookupVariable_def by (rule find_cong) (simp_all add: names)
  have ty: "CastFunctionType (type (exDupSymbols 9)) = Some exDupType"
    by (simp add: exDupSymbols_def Symbol_ctor_def)
  have run: "Function_ctor exPasses exTable 40 (Some 9) None exDupSymbols =
               Inr (\<lparr>sym = Some 9, code = None, maskSymbol = Some 2, args = [Some 3, Some 3],
                     threadIndexSym = None, threadCountSym = None,
                     taskIndexSym = None, taskCountSym = None,
                     taskIndexSym0 = None, taskIndexSym1 = None, taskIndexSym2 = None,
                     taskCountSym0 = None, taskCountSym1 = None, taskCountSym2 = None\<rparr>,
                    exDupSymbols(3 := (exDupSymbols 3)\<lparr>parentFunction := Some 40\<rparr>))"
    by (simp add: Function_ctor_def ty lk exLookups exDupType_def exInt_def Let_def
          bindTaskSymbols_def typeCheckAndOptimize_def)
  have before: "parentFunction (exDupSymbols 3) = None"
    by (simp add: exDupSymbols_def exSymbols_def exSymbolList_def Symbol_ctor_def)
  show ?thesis
    unfolding run using ty before
    by (simp add: GetNumParameters_def exDupType_def)
qed

lemma exTask_marshal:
  "\<exists>c' m'. marshalTaskCPU exTask exTaskType (exFunctionHeap 50)
              (FunctionEmitContext_ctor, exModule) = Inr (11, (c', m'))"
proof -
  have n: "10 < length (fn_argTypes (exFunctionHeap 50))"
    by (simp add: exFunctionHeap_def exDeclared_def)
  have a0: "fn_argTypes (exFunctionHeap 50) ! 0 = PointerTy"
    by (simp add: exFunctionHeap_def exDeclared_def)
  have as: "args exTask = [Some 3, Some 4]" "[0..<length (args exTask)] = [0, 1]"
    by (simp_all add: exTask_def upt_rec)
  show ?thesis
    unfolding marshalTaskCPU_unfold[OF n] as
    by (simp add: Assert_def a0 lCopyInTaskParameter_def copyToLocal_def derefSym_def
          loadTaskMask_def AllocaInst_def LoadInst_def StoreInst_def SetFunctionMask_def
          emit_def setStorageInfo_def Let_def exTask_def exTaskType_def)
qed

theorem marshalTaskCPU_reads_eleven_parameters_witness:
  "\<exists>argIter c' m'.
     marshalTaskCPU exTask exTaskType (exFunctionHeap 50) (FunctionEmitContext_ctor, exModule)
       = Inr (argIter, (c', m')) \<and>
     argIter = 11 \<and> 11 \<le> length (fn_argTypes (exFunctionHeap 50)) \<and>
     functionMaskValue c' =
       LoadInstOf (AddressInfo (AddElementOffsetOf (AddressInfo (Argument 0)) 2)) \<and>
     (\<exists>pre slot. emitted c' = pre @ copiesFrom slot 1 taskSymNames \<and> argStores pre = [])"
proof -
  from exTask_marshal obtain c' m' where
    run: "marshalTaskCPU exTask exTaskType (exFunctionHeap 50)
            (FunctionEmitContext_ctor, exModule) = Inr (11, (c', m'))"
    by blast
  have u: "\<not> isUnmasked exTaskType" "length (args exTask) = 2"
          "emitted FunctionEmitContext_ctor = []"
    by (simp_all add: exTaskType_def exTask_def FunctionEmitContext_ctor_def)
  from marshalTaskCPU_reads_eleven_parameters[OF run] run u show ?thesis
    by (intro exI[of _ 11] exI[of _ c'] exI[of _ m']) simp
qed

text \<open>
  C3, as the claim states it, fails: the task \<open>foo\<close> of two declared parameters is
  emitted on a CPU target into a function whose signature has 11 parameters, and the
  marshalling code has read all of them when its iterator stops at position 11, not
  at 13; the emission succeeds.
\<close>

theorem cpu_task_signature_not_thirteen:
  "isTask exTaskType \<and> \<not> isXeTarget exGlobals \<and> length (params exTaskType) = 2 \<and>
   length (fn_argTypes (functionHeap exModule 50)) = 11 \<and>
   length (fn_argTypes (functionHeap exModule 50)) \<noteq> 13 \<and>
   \<not> isl (marshalTaskCPU exTask exTaskType (functionHeap exModule 50)
            (FunctionEmitContext_ctor, exModule)) \<and>
   fst (projr (marshalTaskCPU exTask exTaskType (functionHeap exModule 50)
                 (FunctionEmitContext_ctor, exModule))) = 11 \<and>
   fst (projr (marshalTaskCPU exTask exTaskType (functionHeap exModule 50)
                 (FunctionEmitContext_ctor, exModule))) \<noteq> 13 \<and>
   \<not> isl (emitCode exGlobals exCollaborators exTask 50 0 (FunctionEmitContext_ctor, exModule))"
proof -
  from exTask_marshal obtain c' m' where
    run: "marshalTaskCPU exTask exTaskType (exFunctionHeap 50)
            (FunctionEmitContext_ctor, exModule) = Inr (11, (c', m'))"
    by blast
  have fh: "functionHeap exModule 50 = exFunctionHeap 50"
    by (simp add: exModule_def)
  have basic: "isTask exTaskType" "\<not> isXeTarget exGlobals" "length (params exTaskType) = 2"
    "length (fn_argTypes (functionHeap exModule 50)) = 11"
    by (simp_all add: example_defs)
  have m: "\<not> isl (marshalTaskCPU exTask exTaskType (functionHeap exModule 50)
                   (FunctionEmitContext_ctor, exModule))"
          "fst (projr (marshalTaskCPU exTask exTaskType (functionHeap exModule 50)
                        (FunctionEmitContext_ctor, exModule))) = 11"
    unfolding fh run by simp_all
  have n: "10 < length (fn_argTypes (exFunctionHeap 50))"
    by (simp add: exFunctionHeap_def exDeclared_def)
  have a0: "fn_argTypes (exFunctionHeap 50) ! 0 = PointerTy"
    by (simp add: exFunctionHeap_def exDeclared_def)
  have as: "args exTask = [Some 3, Some 4]" "[0..<length (args exTask)] = [0, 1]"
    by (simp_all add: exTask_def upt_rec)
  have e: "case emitCode exGlobals exCollaborators exTask 50 0
                  (FunctionEmitContext_ctor, exModule) of
      Inl e \<Rightarrow> False
    | Inr s \<Rightarrow> True"
    by (simp add: emitCode_def derefSym_def exTask_def exModule_def exGlobals_def
          markFuncWithTargetAttr_def exSymbols_def exSymbolList_def Symbol_ctor_def
          exTaskType_def marshalTaskCPU_unfold[OF n] as[unfolded exTask_def] a0
          Assert_def lCopyInTaskParameter_def copyToLocal_def
          loadTaskMask_def AllocaInst_def LoadInst_def StoreInst_def SetFunctionMask_def
          emit_def setStorageInfo_def Let_def split_def
          split: sum.splits)
  from e have e': "\<not> isl (emitCode exGlobals exCollaborators exTask 50 0
                             (FunctionEmitContext_ctor, exModule))"
    by (cases "emitCode exGlobals exCollaborators exTask 50 0
                 (FunctionEmitContext_ctor, exModule)") simp_all
  from basic m e' show ?thesis by simp
qed

theorem kernelArgs_offsets_witness:
  "getXeGrfSize exGlobals = 2 ^ 5 \<and>
   list_all (\<lambda>a. a \<noteq> None) (args exKernel) \<and>
   kernelArgTypes exCollaborators exKernel exModule = [IntegerTy 32, VectorTy (IntegerTy 32) 8] \<and>
   fits32 (2 ^ 5) 32 (kernelArgTypes exCollaborators exKernel exModule) \<and>
   (\<exists>acc. kernelArgs exGlobals exCollaborators exKernel (exFunctionHeap 52) exModule = Inr acc \<and>
          map unat (argOffsets acc) = [32, 64])"
proof -
  have g: "getXeGrfSize exGlobals = 2 ^ 5" by (simp add: exGlobals_def)
  have k: "(5::nat) < 32" by simp
  have named: "list_all (\<lambda>a. a \<noteq> None) (args exKernel)"
    by (simp add: exKernel_def exTask_def)
  have arity: "length (args exKernel) \<le> length (fn_argTypes (exFunctionHeap 52))"
    by (simp add: exKernel_def exTask_def exFunctionHeap_def exDeclared_def)
  have tys: "kernelArgTypes exCollaborators exKernel exModule =
               [IntegerTy 32, VectorTy (IntegerTy 32) 8]"
    by (simp add: kernelArgTypes_def example_defs)
  have G: "(2::nat) ^ 5 = 32" by simp
  have p1: "placeArg_spec 32 (IntegerTy 32) 32 = (32, 36)"
    by (simp add: placeArg_spec_def getScalarSizeInBits_def roundUp_def Let_def)
  have p2: "placeArg_spec 32 (VectorTy (IntegerTy 32) 8) 36 = (64, 96)"
    by (simp add: placeArg_spec_def getScalarSizeInBits_def roundUp_def Let_def)
  have fits: "fits32 (2 ^ 5) 32 (kernelArgTypes exCollaborators exKernel exModule)"
    unfolding tys G by (simp add: p1 p2 getScalarSizeInBits_def)
  have spec: "placeArgs_spec (2 ^ 5) 32 (kernelArgTypes exCollaborators exKernel exModule)
                = [32, 64]"
    unfolding tys G by (simp add: p1 p2)
  from kernelArgs_offsets[OF g k named arity fits] g named tys fits show ?thesis
    unfolding spec by blast
qed

theorem GenerateIR_redefinition_witness:
  "sym exTask = Some 8 \<and>
   llvmFunction (symbols (updFunction 50 (\<lambda>F. F\<lparr>fn_body := [Return]\<rparr>) exModule) 8) = Some 50 \<and>
   fn_body (functionHeap (updFunction 50 (\<lambda>F. F\<lparr>fn_body := [Return]\<rparr>) exModule) 50) \<noteq> [] \<and>
   GenerateIR exGlobals exCollaborators exTask
       (updFunction 50 (\<lambda>F. F\<lparr>fn_body := [Return]\<rparr>) exModule) =
     Inr ((updFunction 50 (\<lambda>F. F\<lparr>fn_body := [Return]\<rparr>) exModule)
            \<lparr>errorCount := 1, diagnostics := [''Ignoring redefinition of function foo'']\<rparr>)"
proof -
  let ?m = "updFunction 50 (\<lambda>F. F\<lparr>fn_body := [Return]\<rparr>) exModule"
  have a: "sym exTask = Some 8" by (simp add: exTask_def)
  have b: "llvmFunction (symbols ?m 8) = Some 50"
    by (simp add: updFunction_def example_defs)
  have c: "fn_body (functionHeap ?m 50) \<noteq> []"
    by (simp add: updFunction_def)
  have d: "errorCount ?m = 0" "diagnostics ?m = []" "name (symbols ?m 8) = ''foo''"
    by (simp_all add: updFunction_def example_defs)
  from GenerateIR_redefinition[OF a b c, of exGlobals exCollaborators] a b c show ?thesis
    unfolding d by simp
qed

theorem InstantiateSymbol_null_witness:
  "InstantiateSymbol exInstantiators None exInstantiation = (None, exInstantiation)"
  by (rule InstantiateSymbol_null)

theorem InstantiateSymbol_memoized_witness:
  "keepsUnmapped exInstantiators 30 \<and>
   symMap (fst exInstantiation) 30 = None \<and>
   fst (InstantiateSymbol exInstantiators (Some 30) exInstantiation) = Some 100 \<and>
   symMap (fst (snd (InstantiateSymbol exInstantiators (Some 30) exInstantiation))) 30 =
     Some 100 \<and>
   parentFunction
     (heap (snd (snd (InstantiateSymbol exInstantiators (Some 30) exInstantiation))) 100) = None \<and>
   InstantiateSymbol exInstantiators (Some 30)
       (snd (InstantiateSymbol exInstantiators (Some 30) exInstantiation)) =
     (Some 100, snd (InstantiateSymbol exInstantiators (Some 30) exInstantiation))"
proof -
  have k: "keepsUnmapped exInstantiators 30"
    by (simp add: keepsUnmapped_def exInstantiators_def)
  have un: "symMap (fst exInstantiation) 30 = None"
    by (simp add: exInstantiation_def)
  have nx: "nextSymbol (snd (snd (ResolveDependence exInstantiators
              (type (heap (snd exInstantiation) 30)) exInstantiation))) = 100"
    by (simp add: exInstantiation_def exInstantiators_def Symbol_ctor_def InstantiateType_def)
  from InstantiateSymbol_memoized[OF k, of exInstantiation] k un show ?thesis
    unfolding nx by auto
qed







end
